theory Spec2Isabelle
  imports Main "HOL-Library.AList" "HOL-Library.Sublist"
begin

section \<open>Python values, strings and exceptions\<close>

text \<open>
  The orchestration core of the ArcLang MCP server is embedded function by function.
  A Python \<^verbatim>\<open>str\<close> is a \<^typ>\<open>string\<close>. The characters of the model are those of
  \<^typ>\<open>char\<close>; whitespace and letter case are those of ASCII (bytes from 0x80 on are
  neither whitespace nor cased), and the literals of the source outside ASCII (the icons
  of the reports) are written as their UTF-8 bytes. A leading underscore of a source
  name is dropped (\<^verbatim>\<open>_parse_metrics\<close> is \<open>parse_metrics\<close>). Where a tool group and the
  compiler facade both have a method of one name, the method of the tool group carries a
  prefix (\<open>core_compile\<close> is \<^verbatim>\<open>CoreTools._compile\<close>, \<open>compile\<close> is
  \<^verbatim>\<open>ArcLangCompiler.compile\<close>).

  An exception is a value of type \<open>error\<close>; a function of the source that can raise
  returns \<open>error + 'a\<close>, with \<open>Inl\<close> for the raised exception. All these classes derive
  from Python's \<^verbatim>\<open>Exception\<close>. \<open>KeyError\<close> carries the missing key, the others their
  message. The messages of the exceptions that the interpreter itself raises are those
  of CPython 3.10; no statement below depends on their wording. Cancellation of a task
  and the other exceptions outside \<^verbatim>\<open>Exception\<close> belong to the scheduler and are not
  modelled.
\<close>

datatype error =
    KeyError string
  | ValueError string
  | TypeError string
  | AttributeError string
  | IndexError string
  | OSError string
  | UnicodeDecodeError string
  | BackendError string
  | TimeoutError

text \<open>JSON-shaped values: the arguments of a tool call and the result of \<^verbatim>\<open>json.loads\<close>.
  A dictionary keeps its insertion order, so it is an association list. Numbers with a
  fraction are outside the model.\<close>

datatype pyval =
    PNone
  | PBool bool
  | PInt int
  | PStr string
  | PList "pyval list"
  | PDict "(string \<times> pyval) list"

subsection \<open>String methods\<close>

text \<open>\<^verbatim>\<open>str.isspace\<close> on one ASCII character: tab, line feed, vertical tab, form feed,
  carriage return, the four separators 0x1C to 0x1F, and the space.\<close>

definition is_space :: "char \<Rightarrow> bool" where
  "is_space c = (c \<in> set [CHR 0x09, CHR 0x0A, CHR 0x0B, CHR 0x0C, CHR 0x0D,
                           CHR 0x1C, CHR 0x1D, CHR 0x1E, CHR 0x1F, CHR 0x20])"

definition lstrip :: "string \<Rightarrow> string" where
  "lstrip s = dropWhile is_space s"

definition rstrip :: "string \<Rightarrow> string" where
  "rstrip s = rev (dropWhile is_space (rev s))"

text \<open>\<^verbatim>\<open>s.strip()\<close>\<close>

definition strip :: "string \<Rightarrow> string" where
  "strip s = rstrip (lstrip s)"

text \<open>\<^verbatim>\<open>s.rstrip(chars)\<close>: drops every trailing character that is in \<open>chars\<close>.\<close>

definition rstrip_chars :: "string \<Rightarrow> string \<Rightarrow> string" where
  "rstrip_chars chars s = rev (dropWhile (\<lambda>c. c \<in> set chars) (rev s))"

text \<open>\<^verbatim>\<open>s.split(sep)\<close> for a separator of one character: the pieces between the
  separators, empty pieces included; the result is never empty. \<open>cur\<close> holds the piece
  being read, reversed.\<close>

fun split_acc :: "char \<Rightarrow> string \<Rightarrow> string \<Rightarrow> string list" where
  "split_acc sep cur [] = [rev cur]"
| "split_acc sep cur (c # cs) =
     (if c = sep then rev cur # split_acc sep [] cs else split_acc sep (c # cur) cs)"

definition split_on :: "char \<Rightarrow> string \<Rightarrow> string list" where
  "split_on sep s = split_acc sep [] s"

text \<open>\<^verbatim>\<open>s.split()\<close>: the maximal runs of characters that are not whitespace.\<close>

fun words_acc :: "string \<Rightarrow> string \<Rightarrow> string list" where
  "words_acc cur [] = (if cur = [] then [] else [rev cur])"
| "words_acc cur (c # cs) =
     (if is_space c then (if cur = [] then words_acc [] cs else rev cur # words_acc [] cs)
      else words_acc (c # cur) cs)"

definition split_ws :: "string \<Rightarrow> string list" where
  "split_ws s = words_acc [] s"

text \<open>\<^verbatim>\<open>sub in s\<close>\<close>

fun contains :: "string \<Rightarrow> string \<Rightarrow> bool" where
  "contains sub [] = (sub = [])"
| "contains sub (c # cs) = (prefix sub (c # cs) \<or> contains sub cs)"

text \<open>\<^verbatim>\<open>s.startswith(p)\<close>\<close>

definition startswith :: "string \<Rightarrow> string \<Rightarrow> bool" where
  "startswith s p = prefix p s"

definition ascii_lowercase :: string where
  "ascii_lowercase = ''abcdefghijklmnopqrstuvwxyz''"

definition ascii_uppercase :: string where
  "ascii_uppercase = ''ABCDEFGHIJKLMNOPQRSTUVWXYZ''"

definition upper_char :: "char \<Rightarrow> char" where
  "upper_char c = (case map_of (zip ascii_lowercase ascii_uppercase) c of
                     Some u \<Rightarrow> u | None \<Rightarrow> c)"

definition lower_char :: "char \<Rightarrow> char" where
  "lower_char c = (case map_of (zip ascii_uppercase ascii_lowercase) c of
                     Some l \<Rightarrow> l | None \<Rightarrow> c)"

definition upper :: "string \<Rightarrow> string" where
  "upper s = map upper_char s"

definition lower :: "string \<Rightarrow> string" where
  "lower s = map lower_char s"

text \<open>\<^verbatim>\<open>s.capitalize()\<close>\<close>

definition capitalize :: "string \<Rightarrow> string" where
  "capitalize s = (case s of [] \<Rightarrow> [] | c # cs \<Rightarrow> upper_char c # lower cs)"

text \<open>\<^verbatim>\<open>sep.join(xs)\<close>\<close>

fun join :: "string \<Rightarrow> string list \<Rightarrow> string" where
  "join sep [] = []"
| "join sep [x] = x"
| "join sep (x # y # ys) = x @ sep @ join sep (y # ys)"

subsection \<open>Integers and text\<close>

text \<open>\<^verbatim>\<open>str(n)\<close> for an integer.\<close>

fun digits_of :: "nat \<Rightarrow> string" where
  "digits_of n =
     (if n < 10 then [''0123456789'' ! n]
      else digits_of (n div 10) @ [''0123456789'' ! (n mod 10)])"

definition str_int :: "int \<Rightarrow> string" where
  "str_int i = (if i < 0 then CHR ''-'' # digits_of (nat (- i)) else digits_of (nat i))"

definition is_digit :: "char \<Rightarrow> bool" where
  "is_digit c = (c \<in> set ''0123456789'')"

definition digit_val :: "char \<Rightarrow> nat" where
  "digit_val c = of_char c - 48"

text \<open>The digits of an integer literal after the first one: a digit, or one underscore
  followed by a digit.\<close>

fun parse_digits :: "nat \<Rightarrow> string \<Rightarrow> nat option" where
  "parse_digits acc [] = Some acc"
| "parse_digits acc (c # cs) =
     (if is_digit c then parse_digits (10 * acc + digit_val c) cs
      else if c = CHR ''_'' then
        (case cs of
           [] \<Rightarrow> None
         | d # ds \<Rightarrow> if is_digit d then parse_digits (10 * acc + digit_val d) ds else None)
      else None)"

definition parse_unsigned :: "string \<Rightarrow> nat option" where
  "parse_unsigned s =
     (case s of
        [] \<Rightarrow> None
      | c # cs \<Rightarrow> if is_digit c then parse_digits (digit_val c) cs else None)"

text \<open>\<^verbatim>\<open>repr(s)\<close> of a string: single quotes, unless the string has a single quote and no
  double quote; the quote in use and the backslash are escaped, tab, line feed and
  carriage return have their letters, the other control characters are \<^verbatim>\<open>\xNN\<close>, and
  every other character stands for itself.\<close>

definition hex2 :: "nat \<Rightarrow> string" where
  "hex2 n = [''0123456789abcdef'' ! (n div 16), ''0123456789abcdef'' ! (n mod 16)]"

definition repr_char :: "char \<Rightarrow> char \<Rightarrow> string" where
  "repr_char quote c =
     (if c = quote \<or> c = CHR 0x5C then [CHR 0x5C, c]
      else if c = CHR 0x09 then [CHR 0x5C, CHR ''t'']
      else if c = CHR 0x0A then [CHR 0x5C, CHR ''n'']
      else if c = CHR 0x0D then [CHR 0x5C, CHR ''r'']
      else if (of_char c :: nat) < 32 \<or> c = CHR 0x7F then
        [CHR 0x5C, CHR ''x''] @ hex2 (of_char c)
      else [c])"

definition repr_str :: "string \<Rightarrow> string" where
  "repr_str s =
     (let quote = (if CHR 0x27 \<in> set s \<and> CHR 0x22 \<notin> set s then CHR 0x22 else CHR 0x27)
      in [quote] @ concat (map (repr_char quote) s) @ [quote])"

text \<open>\<^verbatim>\<open>int(s)\<close> for a string: surrounding whitespace is dropped, then an optional sign
  and a decimal literal. Anything else raises \<^verbatim>\<open>ValueError\<close>. (CPython's configurable
  limit on the number of digits is taken as switched off.)\<close>

definition py_int :: "string \<Rightarrow> error + int" where
  "py_int s =
     (let t = strip s;
          bad = Inl (ValueError (''invalid literal for int() with base 10: '' @ repr_str s))
      in case t of
           [] \<Rightarrow> bad
         | c # cs \<Rightarrow>
             if c = CHR ''-'' then
               (case parse_unsigned cs of None \<Rightarrow> bad | Some n \<Rightarrow> Inr (- int n))
             else if c = CHR ''+'' then
               (case parse_unsigned cs of None \<Rightarrow> bad | Some n \<Rightarrow> Inr (int n))
             else
               (case parse_unsigned t of None \<Rightarrow> bad | Some n \<Rightarrow> Inr (int n)))"

subsection \<open>Dynamic values\<close>

text \<open>\<^verbatim>\<open>str(e)\<close> for an exception: the \<^verbatim>\<open>repr\<close> of the key for a \<^verbatim>\<open>KeyError\<close>, the empty
  string for \<^verbatim>\<open>asyncio.TimeoutError()\<close>, the message otherwise.\<close>

fun str_error :: "error \<Rightarrow> string" where
  "str_error (KeyError k) = repr_str k"
| "str_error (ValueError m) = m"
| "str_error (TypeError m) = m"
| "str_error (AttributeError m) = m"
| "str_error (IndexError m) = m"
| "str_error (OSError m) = m"
| "str_error (UnicodeDecodeError m) = m"
| "str_error (BackendError m) = m"
| "str_error TimeoutError = []"

text \<open>\<^verbatim>\<open>type(v).__name__\<close>, which the interpreter's own messages quote.\<close>

fun type_name :: "pyval \<Rightarrow> string" where
  "type_name PNone = ''NoneType''"
| "type_name (PBool b) = ''bool''"
| "type_name (PInt i) = ''int''"
| "type_name (PStr s) = ''str''"
| "type_name (PList xs) = ''list''"
| "type_name (PDict kvs) = ''dict''"

text \<open>The truth value that \<^verbatim>\<open>if v:\<close>, \<^verbatim>\<open>v or d\<close> and \<^verbatim>\<open>a and b\<close> test.\<close>

fun truthy :: "pyval \<Rightarrow> bool" where
  "truthy PNone = False"
| "truthy (PBool b) = b"
| "truthy (PInt i) = (i \<noteq> 0)"
| "truthy (PStr s) = (s \<noteq> [])"
| "truthy (PList xs) = (xs \<noteq> [])"
| "truthy (PDict kvs) = (kvs \<noteq> [])"

text \<open>\<^verbatim>\<open>repr(v)\<close> and \<^verbatim>\<open>str(v)\<close>; an f-string field \<^verbatim>\<open>{v}\<close> is \<^verbatim>\<open>str(v)\<close>.\<close>

fun py_repr :: "pyval \<Rightarrow> string"
  and py_repr_list :: "pyval list \<Rightarrow> string list"
  and py_repr_items :: "(string \<times> pyval) list \<Rightarrow> string list" where
  "py_repr PNone = ''None''"
| "py_repr (PBool b) = (if b then ''True'' else ''False'')"
| "py_repr (PInt i) = str_int i"
| "py_repr (PStr s) = repr_str s"
| "py_repr (PList xs) = ''['' @ join '', '' (py_repr_list xs) @ '']''"
| "py_repr (PDict kvs) = ''{'' @ join '', '' (py_repr_items kvs) @ ''}''"
| "py_repr_list [] = []"
| "py_repr_list (x # xs) = py_repr x # py_repr_list xs"
| "py_repr_items [] = []"
| "py_repr_items ((k, v) # kvs) = (repr_str k @ '': '' @ py_repr v) # py_repr_items kvs"

definition py_str :: "pyval \<Rightarrow> string" where
  "py_str v = (case v of PStr s \<Rightarrow> s | _ \<Rightarrow> py_repr v)"

text \<open>A dictionary with string keys: \<^verbatim>\<open>d[k]\<close>, \<^verbatim>\<open>d.get(k, default)\<close> and \<^verbatim>\<open>d.get(k)\<close>.\<close>

type_synonym pydict = "(string \<times> pyval) list"

definition dict_getitem :: "pydict \<Rightarrow> string \<Rightarrow> error + pyval" where
  "dict_getitem d k = (case map_of d k of None \<Rightarrow> Inl (KeyError k) | Some v \<Rightarrow> Inr v)"

definition dict_get :: "pydict \<Rightarrow> string \<Rightarrow> pyval \<Rightarrow> pyval" where
  "dict_get d k dflt = (case map_of d k of None \<Rightarrow> dflt | Some v \<Rightarrow> v)"

text \<open>The same two operations on a value that need not be a dictionary: the other types
  raise.\<close>

fun pv_getitem :: "pyval \<Rightarrow> string \<Rightarrow> error + pyval" where
  "pv_getitem (PDict d) k = dict_getitem d k"
| "pv_getitem (PStr s) k = Inl (TypeError ''string indices must be integers'')"
| "pv_getitem (PList xs) k =
     Inl (TypeError ''list indices must be integers or slices, not str'')"
| "pv_getitem v k =
     Inl (TypeError ([CHR 0x27] @ type_name v @ [CHR 0x27] @ '' object is not subscriptable''))"

definition no_attribute :: "pyval \<Rightarrow> string \<Rightarrow> error" where
  "no_attribute v attr =
     AttributeError ([CHR 0x27] @ type_name v @ [CHR 0x27] @ '' object has no attribute ''
                     @ [CHR 0x27] @ attr @ [CHR 0x27])"

fun pv_get :: "pyval \<Rightarrow> string \<Rightarrow> pyval \<Rightarrow> error + pyval" where
  "pv_get (PDict d) k dflt = Inr (dict_get d k dflt)"
| "pv_get v k dflt = Inl (no_attribute v ''get'')"

text \<open>\<^verbatim>\<open>for x in v\<close>: the elements of a list, the characters of a string, the keys of a
  dictionary; the other values are not iterable.\<close>

fun py_iter :: "pyval \<Rightarrow> error + pyval list" where
  "py_iter (PList xs) = Inr xs"
| "py_iter (PStr s) = Inr (map (\<lambda>c. PStr [c]) s)"
| "py_iter (PDict d) = Inr (map (\<lambda>kv. PStr (fst kv)) d)"
| "py_iter v =
     Inl (TypeError ([CHR 0x27] @ type_name v @ [CHR 0x27] @ '' object is not iterable''))"

text \<open>\<^verbatim>\<open>len(v)\<close>\<close>

fun py_len :: "pyval \<Rightarrow> error + nat" where
  "py_len (PList xs) = Inr (length xs)"
| "py_len (PStr s) = Inr (length s)"
| "py_len (PDict d) = Inr (length d)"
| "py_len v =
     Inl (TypeError (''object of type '' @ [CHR 0x27] @ type_name v @ [CHR 0x27]
                     @ '' has no len()''))"

text \<open>A method of \<^verbatim>\<open>str\<close> called on a value: \<^verbatim>\<open>AttributeError\<close> unless it is a string.\<close>

definition str_method :: "string \<Rightarrow> (string \<Rightarrow> 'a) \<Rightarrow> pyval \<Rightarrow> error + 'a" where
  "str_method attr f v = (case v of PStr s \<Rightarrow> Inr (f s) | _ \<Rightarrow> Inl (no_attribute v attr))"

section \<open>Output parser (compiler/wrapper.py)\<close>

text \<open>The expression \<^verbatim>\<open>line.split(":")[-1].strip()\<close> that every parser applies to a
  matched line. \<open>split_on\<close> never returns the empty list, so \<open>last\<close> is the element
  at index -1.\<close>

definition trailing_field :: "string \<Rightarrow> string" where
  "trailing_field line = strip (last (split_on CHR '':'' line))"

text \<open>
  \<^verbatim>\<open>
  def _parse_metrics(self, output: str) -> Dict[str, Any]:
      metrics = {}
      for line in output.split("\n"):
          if "Requirements:" in line:
              metrics["requirements"] = int(line.split(":")[-1].strip())
          elif "Components:" in line:
              metrics["components"] = int(line.split(":")[-1].strip())
          elif "Functions:" in line:
              metrics["functions"] = int(line.split(":")[-1].strip())
          elif "Traces:" in line:
              metrics["traces"] = int(line.split(":")[-1].strip())
      return metrics
  \<close>
  The body of the loop is \<open>parse_metrics_line\<close>; \<^verbatim>\<open>int\<close> is not guarded, so its
  \<^verbatim>\<open>ValueError\<close> leaves the loop and the function.
\<close>

type_synonym metrics = "(string \<times> int) list"

definition set_metric :: "string \<Rightarrow> string \<Rightarrow> metrics \<Rightarrow> error + metrics" where
  "set_metric key line metrics =
     (case py_int (trailing_field line) of
        Inl e \<Rightarrow> Inl e
      | Inr v \<Rightarrow> Inr (AList.update key v metrics))"

definition parse_metrics_line :: "string \<Rightarrow> metrics \<Rightarrow> error + metrics" where
  "parse_metrics_line line metrics =
     (if contains ''Requirements:'' line then set_metric ''requirements'' line metrics
      else if contains ''Components:'' line then set_metric ''components'' line metrics
      else if contains ''Functions:'' line then set_metric ''functions'' line metrics
      else if contains ''Traces:'' line then set_metric ''traces'' line metrics
      else Inr metrics)"

fun parse_metrics_loop :: "string list \<Rightarrow> metrics \<Rightarrow> error + metrics" where
  "parse_metrics_loop [] metrics = Inr metrics"
| "parse_metrics_loop (line # rest) metrics =
     (case parse_metrics_line line metrics of
        Inl e \<Rightarrow> Inl e
      | Inr metrics' \<Rightarrow> parse_metrics_loop rest metrics')"

definition parse_metrics :: "string \<Rightarrow> error + metrics" where
  "parse_metrics output = parse_metrics_loop (split_on CHR 0x0A output) []"

text \<open>\<^verbatim>\<open>metrics.get(name, 0)\<close>, the way every report reads a metric.\<close>

definition metrics_get :: "metrics \<Rightarrow> string \<Rightarrow> int" where
  "metrics_get metrics name = (case map_of metrics name of None \<Rightarrow> 0 | Some v \<Rightarrow> v)"

text \<open>
  \<^verbatim>\<open>
  def _parse_warnings(self, output: str) -> list:
      return [line for line in output.split("\n") if "warning:" in line.lower()]

  def _parse_errors(self, output: str) -> list:
      return [line for line in output.split("\n") if "error:" in line.lower() or line.strip()]
  \<close>
\<close>

definition parse_warnings :: "string \<Rightarrow> string list" where
  "parse_warnings output =
     filter (\<lambda>line. contains ''warning:'' (lower line)) (split_on CHR 0x0A output)"

definition parse_errors :: "string \<Rightarrow> string list" where
  "parse_errors output =
     filter (\<lambda>line. contains ''error:'' (lower line) \<or> strip line \<noteq> [])
       (split_on CHR 0x0A output)"

text \<open>
  \<^verbatim>\<open>
  def _parse_coverage(self, output: str) -> int:
      for line in output.split("\n"):
          if "Coverage:" in line or "coverage:" in line:
              try:
                  return int(line.split(":")[-1].strip().rstrip("%"))
              except:
                  pass
      return 0
  \<close>
  The first matching line whose field is an integer decides; a matching line whose field
  is not one is passed over. \<open>count_traces\<close> is the same loop for the trace count.
\<close>

fun parse_coverage_loop :: "string list \<Rightarrow> int" where
  "parse_coverage_loop [] = 0"
| "parse_coverage_loop (line # rest) =
     (if contains ''Coverage:'' line \<or> contains ''coverage:'' line then
        (case py_int (rstrip_chars ''%'' (trailing_field line)) of
           Inr v \<Rightarrow> v
         | Inl e \<Rightarrow> parse_coverage_loop rest)
      else parse_coverage_loop rest)"

definition parse_coverage :: "string \<Rightarrow> int" where
  "parse_coverage output = parse_coverage_loop (split_on CHR 0x0A output)"

fun count_traces_loop :: "string list \<Rightarrow> int" where
  "count_traces_loop [] = 0"
| "count_traces_loop (line # rest) =
     (if contains ''Traces:'' line \<or> contains ''traces:'' line then
        (case py_int (trailing_field line) of
           Inr v \<Rightarrow> v
         | Inl e \<Rightarrow> count_traces_loop rest)
      else count_traces_loop rest)"

definition count_traces :: "string \<Rightarrow> int" where
  "count_traces output = count_traces_loop (split_on CHR 0x0A output)"

text \<open>The three parsers that return a constant whatever the output is.\<close>

definition parse_gaps :: "string \<Rightarrow> (string \<times> pyval list) list" where
  "parse_gaps output = [(''untraced_requirements'', []), (''untraced_components'', [])]"

definition parse_safety_issues :: "string \<Rightarrow> pyval list" where
  "parse_safety_issues output = []"

definition parse_hazards :: "string \<Rightarrow> pyval list" where
  "parse_hazards output = []"

section \<open>The outside world\<close>

text \<open>
  What the core calls and does not define is a parameter, gathered in one record:
  \<^item> \<open>subprocess_exec\<close>: what becomes of \<^verbatim>\<open>asyncio.create_subprocess_exec(*cmd)\<close> followed
    by \<^verbatim>\<open>wait_for(process.communicate(), timeout)\<close>: the process ends with a return code
    and the bytes of its two streams, or an exception is raised (\<open>TimeoutError\<close> by
    \<^verbatim>\<open>wait_for\<close>, an \<open>OSError\<close> for a missing binary or a refused permission);
  \<^item> \<open>decode\<close>: \<^verbatim>\<open>bytes.decode()\<close>, which raises on bytes that are not UTF-8;
  \<^item> \<open>messages_create\<close>: the generative backend, from the model name, the token budget
    and the prompt to the texts of \<^verbatim>\<open>message.content\<close>, or the exception of the call
    (the temperature is a floating-point setting and is left out);
  \<^item> \<open>json_loads\<close>: \<^verbatim>\<open>json.loads\<close>;
  \<^item> the operations of \<^verbatim>\<open>pathlib.Path\<close>, a path being the text that stands for it;
  \<^item> \<open>size_kb\<close>: the text of \<^verbatim>\<open>model_path.stat().st_size / 1024 if model_path.exists() else 0\<close>,
    a floating-point number, or the \<open>OSError\<close> of \<^verbatim>\<open>stat\<close>.
  The record \<open>world\<close> is the trace of the calls made: the argument vectors given to
  \<^verbatim>\<open>create_subprocess_exec\<close> and the prompts sent to the backend, in order.
\<close>

type_synonym path = string

datatype proc_event = Exited int string string | Raised error

record env =
  subprocess_exec :: "string list \<Rightarrow> proc_event"
  decode :: "string \<Rightarrow> error + string"
  messages_create :: "pyval \<Rightarrow> nat \<Rightarrow> string \<Rightarrow> error + string list"
  json_loads :: "string \<Rightarrow> error + pyval"
  Path :: "string \<Rightarrow> path"
  path_str :: "path \<Rightarrow> string"
  path_name :: "path \<Rightarrow> string"
  is_absolute :: "path \<Rightarrow> bool"
  joinpath :: "path \<Rightarrow> path \<Rightarrow> path"
  with_suffix :: "path \<Rightarrow> string \<Rightarrow> error + path"
  size_kb :: "path \<Rightarrow> error + string"

record world =
  exec_calls :: "pyval list list"
  backend_calls :: "string list"

section \<open>Process invoker (compiler/wrapper.py)\<close>

record compiler =
  binary_path :: string
  timeout :: int

text \<open>
  \<^verbatim>\<open>
  def __init__(self, config: Dict[str, Any]):
      self.binary_path = (os.getenv("ARCLANG_BINARY") or config.get("path") or "arclang")
      self.timeout = config.get("timeout", 30)
  \<close>
\<close>

definition or_str :: "string option \<Rightarrow> string \<Rightarrow> string" where
  "or_str a b = (case a of None \<Rightarrow> b | Some s \<Rightarrow> if s = [] then b else s)"

definition ArcLangCompiler :: "string option \<Rightarrow> string option \<Rightarrow> int option \<Rightarrow> compiler" where
  "ArcLangCompiler getenv_binary config_path config_timeout =
     \<lparr>binary_path = or_str getenv_binary (or_str config_path ''arclang''),
      timeout = (case config_timeout of None \<Rightarrow> 30 | Some t \<Rightarrow> t)\<rparr>"

record proc_result =
  returncode :: int
  stdout :: string
  stderr :: string

text \<open>The argument vector as the operating system takes it: an element that is no string
  makes \<^verbatim>\<open>create_subprocess_exec\<close> raise \<^verbatim>\<open>TypeError\<close> before anything is launched.\<close>

fun cmd_strings :: "pyval list \<Rightarrow> error + string list" where
  "cmd_strings [] = Inr []"
| "cmd_strings (PStr s # rest) =
     (case cmd_strings rest of Inl e \<Rightarrow> Inl e | Inr ss \<Rightarrow> Inr (s # ss))"
| "cmd_strings (v # rest) =
     Inl (TypeError (''expected str, bytes or os.PathLike object, not '' @ type_name v))"

text \<open>
  \<^verbatim>\<open>
  async def _run_command(self, cmd: list) -> Dict[str, Any]:
      try:
          process = await asyncio.create_subprocess_exec(
              *cmd, stdout=asyncio.subprocess.PIPE, stderr=asyncio.subprocess.PIPE)
          stdout, stderr = await asyncio.wait_for(process.communicate(), timeout=self.timeout)
          return {"returncode": process.returncode,
                  "stdout": stdout.decode(), "stderr": stderr.decode()}
      except asyncio.TimeoutError:
          return {"returncode": -1, "stdout": "",
                  "stderr": f"Command timed out after {self.timeout} seconds"}
      except Exception as e:
          return {"returncode": -1, "stdout": "", "stderr": str(e)}
  \<close>
  \<open>run_command_try\<close> is the body of the \<^verbatim>\<open>try\<close>, \<open>run_command\<close> adds the two handlers.
\<close>

definition run_command_try :: "env \<Rightarrow> pyval list \<Rightarrow> error + proc_result" where
  "run_command_try ev cmd =
     (case cmd_strings cmd of
        Inl e \<Rightarrow> Inl e
      | Inr argv \<Rightarrow>
          (case subprocess_exec ev argv of
             Raised e \<Rightarrow> Inl e
           | Exited rc out err \<Rightarrow>
               (case decode ev out of
                  Inl e \<Rightarrow> Inl e
                | Inr out_text \<Rightarrow>
                    (case decode ev err of
                       Inl e \<Rightarrow> Inl e
                     | Inr err_text \<Rightarrow>
                         Inr \<lparr>returncode = rc, stdout = out_text, stderr = err_text\<rparr>))))"

definition run_command :: "compiler \<Rightarrow> env \<Rightarrow> pyval list \<Rightarrow> world \<Rightarrow> proc_result \<times> world" where
  "run_command self ev cmd w =
     (let w' = w\<lparr>exec_calls := exec_calls w @ [cmd]\<rparr>
      in case run_command_try ev cmd of
           Inr result \<Rightarrow> (result, w')
         | Inl TimeoutError \<Rightarrow>
             (\<lparr>returncode = - 1, stdout = [],
               stderr = ''Command timed out after '' @ str_int (timeout self) @ '' seconds''\<rparr>, w')
         | Inl e \<Rightarrow> (\<lparr>returncode = - 1, stdout = [], stderr = str_error e\<rparr>, w'))"

section \<open>Compiler facade (compiler/wrapper.py)\<close>

text \<open>Each method builds its argument vector, runs it, and returns a dictionary with fixed
  keys, here a record whose fields carry the method's initial (\<open>c_success\<close> is
  \<^verbatim>\<open>compile\<close>'s \<^verbatim>\<open>"success"\<close>). \<open>flag\<close> is \<^verbatim>\<open>if v: cmd.append(name)\<close>.\<close>

definition flag :: "pyval \<Rightarrow> string \<Rightarrow> pyval list" where
  "flag v name = (if truthy v then [PStr name] else [])"

record compile_result =
  c_success :: bool
  c_output :: string
  c_errors :: string
  c_metrics :: metrics

text \<open>
  \<^verbatim>\<open>
  async def compile(self, model_path: Path, validate: bool = True, optimize: bool = False):
      cmd = [self.binary_path, "build", str(model_path)]
      if validate: cmd.append("--validate")
      if optimize: cmd.append("--optimize")
      result = await self._run_command(cmd)
      return {"success": result["returncode"] == 0,
              "output": result["stdout"],
              "errors": result["stderr"],
              "metrics": self._parse_metrics(result["stdout"]) if result["returncode"] == 0 else {}}
  \<close>
\<close>

definition compile :: "compiler \<Rightarrow> env \<Rightarrow> path \<Rightarrow> pyval \<Rightarrow> pyval \<Rightarrow> world
    \<Rightarrow> (error + compile_result) \<times> world" where
  "compile self ev model_path validate optimize w =
     (let cmd = [PStr (binary_path self), PStr ''build'', PStr (path_str ev model_path)]
                @ flag validate ''--validate'' @ flag optimize ''--optimize'';
          (result, w') = run_command self ev cmd w
      in case (if returncode result = 0 then parse_metrics (stdout result) else Inr []) of
           Inl e \<Rightarrow> (Inl e, w')
         | Inr m \<Rightarrow>
             (Inr \<lparr>c_success = (returncode result = 0), c_output = stdout result,
                   c_errors = stderr result, c_metrics = m\<rparr>, w'))"

record validate_result =
  v_valid :: bool
  v_warnings :: "string list"
  v_errors :: "string list"

text \<open>
  \<^verbatim>\<open>
  async def validate(self, model_path: Path, strict: bool = False):
      cmd = [self.binary_path, "check", str(model_path), "--lint"]
      if strict: cmd.append("--strict")
      result = await self._run_command(cmd)
      return {"valid": result["returncode"] == 0,
              "warnings": self._parse_warnings(result["stdout"]),
              "errors": self._parse_errors(result["stderr"])}
  \<close>
\<close>

definition validate :: "compiler \<Rightarrow> env \<Rightarrow> path \<Rightarrow> pyval \<Rightarrow> world \<Rightarrow> validate_result \<times> world" where
  "validate self ev model_path strict w =
     (let cmd = [PStr (binary_path self), PStr ''check'', PStr (path_str ev model_path),
                 PStr ''--lint''] @ flag strict ''--strict'';
          (result, w') = run_command self ev cmd w
      in (\<lparr>v_valid = (returncode result = 0),
           v_warnings = parse_warnings (stdout result),
           v_errors = parse_errors (stderr result)\<rparr>, w'))"

record trace_result =
  t_coverage :: int
  t_total_traces :: int
  t_gaps :: "(string \<times> pyval list) list"

text \<open>
  \<^verbatim>\<open>
  async def trace_analysis(self, model_path: Path, show_gaps: bool = True, matrix: bool = False):
      cmd = [self.binary_path, "trace", str(model_path), "--validate"]
      if show_gaps: cmd.append("--gaps")
      if matrix: cmd.append("--matrix")
      result = await self._run_command(cmd)
      return {"coverage": self._parse_coverage(result["stdout"]),
              "total_traces": self._count_traces(result["stdout"]),
              "gaps": self._parse_gaps(result["stdout"]) if show_gaps else {}}
  \<close>
\<close>

definition trace_analysis :: "compiler \<Rightarrow> env \<Rightarrow> path \<Rightarrow> pyval \<Rightarrow> pyval \<Rightarrow> world
    \<Rightarrow> trace_result \<times> world" where
  "trace_analysis self ev model_path show_gaps matrix w =
     (let cmd = [PStr (binary_path self), PStr ''trace'', PStr (path_str ev model_path),
                 PStr ''--validate''] @ flag show_gaps ''--gaps'' @ flag matrix ''--matrix'';
          (result, w') = run_command self ev cmd w
      in (\<lparr>t_coverage = parse_coverage (stdout result),
           t_total_traces = count_traces (stdout result),
           t_gaps = (if truthy show_gaps then parse_gaps (stdout result) else [])\<rparr>, w'))"

record export_result =
  e_success :: bool
  e_output_path :: pyval
  e_error :: pyval

text \<open>
  \<^verbatim>\<open>
  async def export_diagram(self, model_path: Path, format_type: str = "html",
                           output_path: Optional[str] = None):
      if not output_path:
          output_path = str(model_path.with_suffix(".html"))
      cmd = [self.binary_path, "export", str(model_path), "-o", output_path, "-f", format_type]
      result = await self._run_command(cmd)
      return {"success": result["returncode"] == 0,
              "output_path": output_path if result["returncode"] == 0 else None,
              "error": result["stderr"] if result["returncode"] != 0 else None}
  \<close>
\<close>

definition export_diagram :: "compiler \<Rightarrow> env \<Rightarrow> path \<Rightarrow> pyval \<Rightarrow> pyval \<Rightarrow> world
    \<Rightarrow> (error + export_result) \<times> world" where
  "export_diagram self ev model_path format_type output_path w =
     (case (if \<not> truthy output_path then
              (case with_suffix ev model_path ''.html'' of
                 Inl e \<Rightarrow> Inl e
               | Inr p \<Rightarrow> Inr (PStr (path_str ev p)))
            else Inr output_path) of
        Inl e \<Rightarrow> (Inl e, w)
      | Inr output_path' \<Rightarrow>
          (let cmd = [PStr (binary_path self), PStr ''export'', PStr (path_str ev model_path),
                      PStr ''-o'', output_path', PStr ''-f'', format_type];
               (result, w') = run_command self ev cmd w
           in (Inr \<lparr>e_success = (returncode result = 0),
                    e_output_path = (if returncode result = 0 then output_path' else PNone),
                    e_error = (if returncode result \<noteq> 0 then PStr (stderr result) else PNone)\<rparr>,
               w')))"

record info_result =
  i_metrics :: metrics
  i_size_kb :: string

text \<open>
  \<^verbatim>\<open>
  async def info(self, model_path: Path, detailed: bool = False):
      cmd = [self.binary_path, "info", str(model_path), "--metrics"]
      if detailed: cmd.append("--detailed")
      result = await self._run_command(cmd)
      return {"metrics": self._parse_metrics(result["stdout"]),
              "size_kb": model_path.stat().st_size / 1024 if model_path.exists() else 0}
  \<close>
\<close>

definition info :: "compiler \<Rightarrow> env \<Rightarrow> path \<Rightarrow> pyval \<Rightarrow> world \<Rightarrow> (error + info_result) \<times> world" where
  "info self ev model_path detailed w =
     (let cmd = [PStr (binary_path self), PStr ''info'', PStr (path_str ev model_path),
                 PStr ''--metrics''] @ flag detailed ''--detailed'';
          (result, w') = run_command self ev cmd w
      in case parse_metrics (stdout result) of
           Inl e \<Rightarrow> (Inl e, w')
         | Inr m \<Rightarrow>
             (case size_kb ev model_path of
                Inl e \<Rightarrow> (Inl e, w')
              | Inr kb \<Rightarrow> (Inr \<lparr>i_metrics = m, i_size_kb = kb\<rparr>, w')))"

record safety_result =
  s_compliant :: bool
  s_issues :: "pyval list"
  s_recommendations :: "pyval list"

text \<open>
  \<^verbatim>\<open>
  async def safety_check(self, model_path: Path, standard: str, generate_report: bool = False):
      cmd = [self.binary_path, "safety", str(model_path), "--standard", standard]
      if generate_report: cmd.append("--report")
      result = await self._run_command(cmd)
      return {"compliant": result["returncode"] == 0,
              "issues": self._parse_safety_issues(result["stdout"]),
              "recommendations": []}
  \<close>
\<close>

definition safety_check :: "compiler \<Rightarrow> env \<Rightarrow> path \<Rightarrow> pyval \<Rightarrow> pyval \<Rightarrow> world
    \<Rightarrow> safety_result \<times> world" where
  "safety_check self ev model_path standard generate_report w =
     (let cmd = [PStr (binary_path self), PStr ''safety'', PStr (path_str ev model_path),
                 PStr ''--standard'', standard] @ flag generate_report ''--report'';
          (result, w') = run_command self ev cmd w
      in (\<lparr>s_compliant = (returncode result = 0),
           s_issues = parse_safety_issues (stdout result),
           s_recommendations = []\<rparr>, w'))"

text \<open>
  \<^verbatim>\<open>
  async def hazard_analysis(self, model_path: Path, standard: str):
      cmd = [self.binary_path, "safety", str(model_path), "--hara", "--standard", standard]
      result = await self._run_command(cmd)
      return {"hazards": self._parse_hazards(result["stdout"])}
  \<close>
  The result has the one key \<^verbatim>\<open>"hazards"\<close>; the model returns its value.
\<close>

definition hazard_analysis :: "compiler \<Rightarrow> env \<Rightarrow> path \<Rightarrow> pyval \<Rightarrow> world \<Rightarrow> pyval list \<times> world" where
  "hazard_analysis self ev model_path standard w =
     (let cmd = [PStr (binary_path self), PStr ''safety'', PStr (path_str ev model_path),
                 PStr ''--hara'', PStr ''--standard'', standard];
          (result, w') = run_command self ev cmd w
      in (parse_hazards (stdout result), w'))"

record merge_result =
  m_clean_merge :: bool
  m_conflicts :: "pyval list"
  m_merged_count :: int

text \<open>
  \<^verbatim>\<open>
  async def semantic_merge(self, base_path: Path, ours_path: Path, theirs_path: Path):
      return {"clean_merge": False, "conflicts": [], "merged_count": 0}
  \<close>
\<close>

definition semantic_merge :: "compiler \<Rightarrow> path \<Rightarrow> path \<Rightarrow> path \<Rightarrow> world \<Rightarrow> merge_result \<times> world" where
  "semantic_merge self base_path ours_path theirs_path w =
     (\<lparr>m_clean_merge = False, m_conflicts = [], m_merged_count = 0\<rparr>, w)"

record plm_result =
  p_success :: bool
  p_changes_count :: int
  p_error :: pyval

text \<open>
  \<^verbatim>\<open>
  async def plm_sync(self, model_path: Path, system: str, operation: str):
      cmd = [self.binary_path, "plm", operation, str(model_path), "--system", system]
      result = await self._run_command(cmd)
      return {"success": result["returncode"] == 0,
              "changes_count": 0,
              "error": result["stderr"] if result["returncode"] != 0 else None}
  \<close>
\<close>

definition plm_sync :: "compiler \<Rightarrow> env \<Rightarrow> path \<Rightarrow> pyval \<Rightarrow> pyval \<Rightarrow> world \<Rightarrow> plm_result \<times> world" where
  "plm_sync self ev model_path system operation w =
     (let cmd = [PStr (binary_path self), PStr ''plm'', operation,
                 PStr (path_str ev model_path), PStr ''--system'', system];
          (result, w') = run_command self ev cmd w
      in (\<lparr>p_success = (returncode result = 0),
           p_changes_count = 0,
           p_error = (if returncode result \<noteq> 0 then PStr (stderr result) else PNone)\<rparr>, w'))"

section \<open>Generation facade (ai/generator.py)\<close>

text \<open>
  \<^verbatim>\<open>
  def __init__(self, config: Dict[str, Any]):
      self.provider = config.get("provider", "anthropic")
      self.model = config.get("model", "claude-3-5-sonnet-20241022")
      self.temperature = config.get("temperature", 0.3)
      if self.provider == "anthropic":
          api_key = config.get("api_key") or os.getenv("ANTHROPIC_API_KEY")
          self.client = anthropic.Anthropic(api_key=api_key) if api_key else None
  \<close>
  The attribute \<^verbatim>\<open>client\<close> holds a client object, or \<^verbatim>\<open>None\<close>, or was never assigned (a
  provider other than \<^verbatim>\<open>"anthropic"\<close>). \<open>getenv_key\<close> is the value of the environment
  variable.
\<close>

datatype client_attr = Unset | ClientNone | Client

record generator =
  provider :: pyval
  model :: pyval
  client :: client_attr

definition AIGenerator :: "pydict \<Rightarrow> string option \<Rightarrow> generator" where
  "AIGenerator config getenv_key =
     (let provider = dict_get config ''provider'' (PStr ''anthropic'');
          model = dict_get config ''model'' (PStr ''claude-3-5-sonnet-20241022'');
          api_key = (if truthy (dict_get config ''api_key'' PNone)
                     then dict_get config ''api_key'' PNone
                     else (case getenv_key of None \<Rightarrow> PNone | Some k \<Rightarrow> PStr k))
      in \<lparr>provider = provider, model = model,
          client = (if provider = PStr ''anthropic''
                    then (if truthy api_key then Client else ClientNone)
                    else Unset)\<rparr>)"

text \<open>
  \<^verbatim>\<open>
  def _generate_requirement_id(self, description: str) -> str:
      words = description.split()[:2]
      prefix = "".join([w[0].upper() for w in words if w])
      return f"REQ-{prefix}-001"
  \<close>
  and the same with \<^verbatim>\<open>LC-\<close> for a component.
\<close>

definition initials :: "string \<Rightarrow> string" where
  "initials description =
     (let words = take 2 (split_ws description)
      in concat (map (\<lambda>w. upper [hd w]) (filter (\<lambda>w. w \<noteq> []) words)))"

definition generate_requirement_id :: "string \<Rightarrow> string" where
  "generate_requirement_id description = ''REQ-'' @ initials description @ ''-001''"

definition generate_component_id :: "string \<Rightarrow> string" where
  "generate_component_id description = ''LC-'' @ initials description @ ''-001''"

text \<open>The two fields about the safety level that the templates share:
  \<^verbatim>\<open>{safety_level or 'Not specified'}\<close> and
  \<^verbatim>\<open>{f'safety_level: "{safety_level}"' if safety_level else other}\<close>.\<close>

definition safety_or_unspecified :: "pyval \<Rightarrow> string" where
  "safety_or_unspecified safety_level =
     (if truthy safety_level then py_str safety_level else ''Not specified'')"

definition safety_line :: "pyval \<Rightarrow> string \<Rightarrow> string" where
  \<open>safety_line safety_level other =
     (if truthy safety_level then ''safety_level: "'' @ py_str safety_level @ ''"'' else other)\<close>

text \<open>The call \<^verbatim>\<open>self.client.messages.create(model=self.model, max_tokens=n, ...,
  messages=[{"role": "user", "content": prompt}])\<close>, recorded in the trace.\<close>

definition create_message :: "generator \<Rightarrow> env \<Rightarrow> nat \<Rightarrow> string \<Rightarrow> world
    \<Rightarrow> (error + string list) \<times> world" where
  "create_message self ev max_tokens prompt w =
     (messages_create ev (model self) max_tokens prompt,
      w\<lparr>backend_calls := backend_calls w @ [prompt]\<rparr>)"

text \<open>\<^verbatim>\<open>message.content[0].text.strip()\<close>\<close>

definition first_text :: "string list \<Rightarrow> error + string" where
  "first_text content =
     (case content of
        [] \<Rightarrow> Inl (IndexError ''list index out of range'')
      | t # _ \<Rightarrow> Inr (strip t))"

definition client_unset :: error where
  "client_unset = AttributeError ([CHR 0x27] @ ''AIGenerator'' @ [CHR 0x27]
     @ '' object has no attribute '' @ [CHR 0x27] @ ''client'' @ [CHR 0x27])"

subsection \<open>\<^verbatim>\<open>generate_requirement\<close>\<close>

definition requirement_prompt :: "pyval \<Rightarrow> pyval \<Rightarrow> pyval \<Rightarrow> string" where
  \<open>requirement_prompt description safety_level priority =
     ''Generate an ArcLang requirement based on this description:\<newline>\<newline>Description: ''
     @ py_str description @ ''\<newline>Safety Level: '' @ safety_or_unspecified safety_level
     @ ''\<newline>Priority: '' @ py_str priority
     @ ''\<newline>\<newline>Generate a complete ArcLang requirement block following this format:\<newline>\<newline>''
     @ ''requirement "REQ-XXX-YYY" {\<newline>    description: "..."\<newline>    priority: "''
     @ py_str priority @ ''"\<newline>    ''
     @ safety_line safety_level ''// safety_level: "TBD"''
     @ ''\<newline>    type: "Functional"  // or Performance, Safety, etc.\<newline>''
     @ ''    verification_method: "Test"  // or Analysis, Inspection, Demonstration\<newline>}\<newline>\<newline>''
     @ ''Important:\<newline>- Use descriptive requirement ID (e.g., REQ-BRAKE-001)\<newline>''
     @ ''- Keep description concise and verifiable\<newline>''
     @ ''- Choose appropriate type based on description\<newline>''
     @ ''- Follow ISO 26262 / DO-178C conventions if safety level specified\<newline>\<newline>''
     @ ''Generate only the ArcLang code, no explanation.''\<close>

text \<open>The block of the fallback branch:
  \<^verbatim>\<open>
  return f'''requirement "{req_id}" {{
      description: "{description}"
      priority: "{priority}"
      {f'safety_level: "{safety_level}"' if safety_level else '// safety_level: "TBD"'}
      type: "Functional"
      verification_method: "Test"
  }}'''
  \<close>
  \<open>requirement_body\<close> is what follows the identifier.
\<close>

definition requirement_body :: "pyval \<Rightarrow> pyval \<Rightarrow> pyval \<Rightarrow> string" where
  \<open>requirement_body description safety_level priority =
     ''" {\<newline>    description: "'' @ py_str description
     @ ''"\<newline>    priority: "'' @ py_str priority @ ''"\<newline>    ''
     @ safety_line safety_level ''// safety_level: "TBD"''
     @ ''\<newline>    type: "Functional"\<newline>    verification_method: "Test"\<newline>}''\<close>

definition requirement_template :: "string \<Rightarrow> pyval \<Rightarrow> pyval \<Rightarrow> pyval \<Rightarrow> string" where
  \<open>requirement_template req_id description safety_level priority =
     ''requirement "'' @ req_id @ requirement_body description safety_level priority\<close>

text \<open>
  \<^verbatim>\<open>
  async def generate_requirement(self, description, safety_level=None, priority="High") -> str:
      prompt = f"""..."""
      if self.client:
          message = self.client.messages.create(model=self.model, max_tokens=1024,
              temperature=self.temperature, messages=[{"role": "user", "content": prompt}])
          return message.content[0].text.strip()
      else:
          req_id = self._generate_requirement_id(description)
          return f'''...'''
  \<close>
  The result is the text alone. Nothing guards the call of the backend.
\<close>

definition generate_requirement :: "generator \<Rightarrow> env \<Rightarrow> pyval \<Rightarrow> pyval \<Rightarrow> pyval \<Rightarrow> world
    \<Rightarrow> (error + string) \<times> world" where
  "generate_requirement self ev description safety_level priority w =
     (let prompt = requirement_prompt description safety_level priority
      in case client self of
           Unset \<Rightarrow> (Inl client_unset, w)
         | Client \<Rightarrow>
             (let (message, w') = create_message self ev 1024 prompt w
              in case message of
                   Inl e \<Rightarrow> (Inl e, w')
                 | Inr content \<Rightarrow> (first_text content, w'))
         | ClientNone \<Rightarrow>
             (case str_method ''split'' generate_requirement_id description of
                Inl e \<Rightarrow> (Inl e, w)
              | Inr req_id \<Rightarrow>
                  (Inr (requirement_template req_id description safety_level priority), w)))"

subsection \<open>\<^verbatim>\<open>generate_component\<close>\<close>

definition component_prompt :: "pyval \<Rightarrow> pyval \<Rightarrow> pyval \<Rightarrow> string" where
  \<open>component_prompt description component_type safety_level =
     ''Generate an ArcLang component based on this description:\<newline>\<newline>Description: ''
     @ py_str description @ ''\<newline>Type: '' @ py_str component_type
     @ ''\<newline>Safety Level: '' @ safety_or_unspecified safety_level
     @ ''\<newline>\<newline>Generate a complete ArcLang component block following this format:\<newline>\<newline>''
     @ ''component "Component Name" {\<newline>    id: "LC-XXX-YYY"\<newline>    type: "''
     @ py_str component_type @ ''"\<newline>    description: "..."\<newline>    ''
     @ safety_line safety_level ''''
     @ ''\<newline>    \<newline>    function "Main Function" {\<newline>        id: "LF-XXX-YYY"\<newline>''
     @ ''        inputs: ["input1", "input2"]\<newline>        outputs: ["output1"]\<newline>''
     @ ''        execution_time: "XYms"\<newline>    }\<newline>}\<newline>\<newline>''
     @ ''Important:\<newline>- Use descriptive component and function names\<newline>''
     @ ''- Component ID pattern: LC-<SUBSYSTEM>-<NUM>\<newline>''
     @ ''- Function ID pattern: LF-<FUNCTION>-<NUM>\<newline>''
     @ ''- Include realistic inputs/outputs\<newline>''
     @ ''- Add execution_time for real-time systems\<newline>\<newline>''
     @ ''Generate only the ArcLang code, no explanation.''\<close>

definition component_template :: "string \<Rightarrow> pyval \<Rightarrow> pyval \<Rightarrow> pyval \<Rightarrow> string" where
  \<open>component_template comp_id description component_type safety_level =
     ''component "'' @ py_str description @ ''" {\<newline>    id: "'' @ comp_id
     @ ''"\<newline>    type: "'' @ py_str component_type
     @ ''"\<newline>    description: "'' @ py_str description @ ''"\<newline>    ''
     @ safety_line safety_level ''''
     @ ''\<newline>    \<newline>    function "Process" {\<newline>        id: "LF-PROCESS"\<newline>''
     @ ''        inputs: ["input_data"]\<newline>        outputs: ["output_data"]\<newline>    }\<newline>}''\<close>

text \<open>\<^verbatim>\<open>generate_component(self, description, component_type="Logical", safety_level=None)\<close>
  has the shape of \<open>generate_requirement\<close>, with a budget of 2048 tokens.\<close>

definition generate_component :: "generator \<Rightarrow> env \<Rightarrow> pyval \<Rightarrow> pyval \<Rightarrow> pyval \<Rightarrow> world
    \<Rightarrow> (error + string) \<times> world" where
  "generate_component self ev description component_type safety_level w =
     (let prompt = component_prompt description component_type safety_level
      in case client self of
           Unset \<Rightarrow> (Inl client_unset, w)
         | Client \<Rightarrow>
             (let (message, w') = create_message self ev 2048 prompt w
              in case message of
                   Inl e \<Rightarrow> (Inl e, w')
                 | Inr content \<Rightarrow> (first_text content, w'))
         | ClientNone \<Rightarrow>
             (case str_method ''split'' generate_component_id description of
                Inl e \<Rightarrow> (Inl e, w)
              | Inr comp_id \<Rightarrow>
                  (Inr (component_template comp_id description component_type safety_level), w)))"

subsection \<open>\<^verbatim>\<open>suggest_architecture\<close>\<close>

definition architecture_prompt :: "string \<Rightarrow> pyval \<Rightarrow> string" where
  \<open>architecture_prompt req_list domain =
     ''Given these requirements for a '' @ py_str domain
     @ '' system, suggest an appropriate architecture:\<newline>\<newline>Requirements:\<newline>'' @ req_list
     @ ''\<newline>\<newline>Suggest:\<newline>1. Main components (5-10 components)\<newline>''
     @ ''2. Component types (Logical/Physical)\<newline>3. Safety levels if applicable\<newline>''
     @ ''4. Recommended architectural patterns\<newline>\<newline>Provide suggestions in JSON format:\<newline>''
     @ ''{\<newline>    "components": [\<newline>        {\<newline>            "name": "Component Name",\<newline>''
     @ ''            "type": "Logical",\<newline>            "description": "Brief description",\<newline>''
     @ ''            "safety_level": "ASIL_B"  // if applicable\<newline>        }\<newline>    ],\<newline>''
     @ ''    "patterns": ["Pattern 1", "Pattern 2"]\<newline>}''\<close>

text \<open>The two constants the method can return without the backend's text.\<close>

definition empty_suggestions :: pyval where
  "empty_suggestions = PDict [(''components'', PList []), (''patterns'', PList [])]"

definition logical_component :: "string \<Rightarrow> string \<Rightarrow> pyval" where
  "logical_component name description =
     PDict [(''name'', PStr name), (''type'', PStr ''Logical''),
            (''description'', PStr description)]"

definition fallback_suggestions :: pyval where
  "fallback_suggestions =
     PDict [(''components'',
             PList [logical_component ''Sensor Interface'' ''Handles sensor data'',
                    logical_component ''Controller'' ''Main control logic'',
                    logical_component ''Actuator Interface'' ''Controls actuators'']),
            (''patterns'', PList [PStr ''Layered Architecture'', PStr ''Sense-Process-Actuate''])]"

text \<open>
  \<^verbatim>\<open>
  async def suggest_architecture(self, requirements: List[str], domain: str = "automotive"):
      req_list = "\n".join([f"- {req}" for req in requirements])
      prompt = f"""..."""
      if self.client:
          message = self.client.messages.create(model=self.model, max_tokens=2048,
              temperature=self.temperature, messages=[{"role": "user", "content": prompt}])
          try:
              import json
              return json.loads(message.content[0].text.strip())
          except:
              return {"components": [], "patterns": []}
      else:
          return {"components": [...three generic components...],
                  "patterns": ["Layered Architecture", "Sense-Process-Actuate"]}
  \<close>
  The \<^verbatim>\<open>try\<close> covers the reading and the parsing of the answer, not the call.
\<close>

definition suggest_architecture :: "generator \<Rightarrow> env \<Rightarrow> pyval \<Rightarrow> pyval \<Rightarrow> world
    \<Rightarrow> (error + pyval) \<times> world" where
  "suggest_architecture self ev requirements domain w =
     (case py_iter requirements of
        Inl e \<Rightarrow> (Inl e, w)
      | Inr reqs \<Rightarrow>
          (let req_list = join [CHR 0x0A] (map (\<lambda>req. ''- '' @ py_str req) reqs);
               prompt = architecture_prompt req_list domain
           in case client self of
                Unset \<Rightarrow> (Inl client_unset, w)
              | Client \<Rightarrow>
                  (let (message, w') = create_message self ev 2048 prompt w
                   in case message of
                        Inl e \<Rightarrow> (Inl e, w')
                      | Inr content \<Rightarrow>
                          (case first_text content of
                             Inl e \<Rightarrow> (Inr empty_suggestions, w')
                           | Inr text \<Rightarrow>
                               (case json_loads ev text of
                                  Inl e \<Rightarrow> (Inr empty_suggestions, w')
                                | Inr v \<Rightarrow> (Inr v, w'))))
              | ClientNone \<Rightarrow> (Inr fallback_suggestions, w)))"

section \<open>Reports\<close>

text \<open>The icons of the reports, as UTF-8.\<close>

definition check_mark :: string where "check_mark = [CHR 0xE2, CHR 0x9C, CHR 0x85]"
definition cross_mark :: string where "cross_mark = [CHR 0xE2, CHR 0x9D, CHR 0x8C]"
definition warning_sign :: string where
  "warning_sign = [CHR 0xE2, CHR 0x9A, CHR 0xA0, CHR 0xEF, CHR 0xB8, CHR 0x8F]"
definition link_icon :: string where "link_icon = [CHR 0xF0, CHR 0x9F, CHR 0x94, CHR 0x97]"
definition chart_icon :: string where "chart_icon = [CHR 0xF0, CHR 0x9F, CHR 0x93, CHR 0x8A]"
definition sparkles :: string where "sparkles = [CHR 0xE2, CHR 0x9C, CHR 0xA8]"
definition bulb :: string where "bulb = [CHR 0xF0, CHR 0x9F, CHR 0x92, CHR 0xA1]"
definition shield :: string where
  "shield = [CHR 0xF0, CHR 0x9F, CHR 0x9B, CHR 0xA1, CHR 0xEF, CHR 0xB8, CHR 0x8F]"
definition red_circle :: string where "red_circle = [CHR 0xF0, CHR 0x9F, CHR 0x94, CHR 0xB4]"
definition page_icon :: string where "page_icon = [CHR 0xF0, CHR 0x9F, CHR 0x93, CHR 0x84]"
definition shuffle_icon :: string where "shuffle_icon = [CHR 0xF0, CHR 0x9F, CHR 0x94, CHR 0x80]"
definition sync_icon :: string where "sync_icon = [CHR 0xF0, CHR 0x9F, CHR 0x94, CHR 0x84]"

text \<open>Sequencing of steps that can raise, and a loop \<^verbatim>\<open>for x in xs: output += f(x)\<close> whose
  body can raise.\<close>

definition and_then :: "error + 'a \<Rightarrow> ('a \<Rightarrow> error + 'b) \<Rightarrow> error + 'b" where
  "and_then r f = (case r of Inl e \<Rightarrow> Inl e | Inr x \<Rightarrow> f x)"

fun render_each :: "('a \<Rightarrow> error + string) \<Rightarrow> 'a list \<Rightarrow> error + string" where
  "render_each f [] = Inr []"
| "render_each f (x # xs) =
     and_then (f x) (\<lambda>s. and_then (render_each f xs) (\<lambda>rest. Inr (s @ rest)))"

text \<open>\<^verbatim>\<open>Path(v)\<close> for a value out of the arguments: \<^verbatim>\<open>TypeError\<close> unless it is a string.\<close>

definition make_path :: "env \<Rightarrow> pyval \<Rightarrow> error + path" where
  "make_path ev v =
     (case v of
        PStr s \<Rightarrow> Inr (Path ev s)
      | _ \<Rightarrow> Inl (TypeError (''expected str, bytes or os.PathLike object, not '' @ type_name v)))"

section \<open>Core tools (tools/core.py)\<close>

record core_tools =
  ct_compiler :: compiler
  workspace_root :: path

text \<open>
  \<^verbatim>\<open>
  def _resolve_path(self, path_str: str) -> Path:
      path = Path(path_str)
      if not path.is_absolute():
          path = self.workspace_root / path
      return path
  \<close>
\<close>

definition resolve_path :: "core_tools \<Rightarrow> env \<Rightarrow> pyval \<Rightarrow> error + path" where
  "resolve_path self ev v =
     and_then (make_path ev v)
       (\<lambda>p. Inr (if \<not> is_absolute ev p then joinpath ev (workspace_root self) p else p))"

text \<open>\<^verbatim>\<open>_compile\<close>. The result of \<^verbatim>\<open>compile\<close> always has the key \<^verbatim>\<open>"metrics"\<close> and never the
  keys \<^verbatim>\<open>"validation"\<close> and \<^verbatim>\<open>"output_path"\<close>, so the metrics block is always written, the
  validation block never, and the output is \<^verbatim>\<open>N/A\<close>. Each metric is read with
  \<^verbatim>\<open>metrics.get(name, 0)\<close>.\<close>

definition compile_report :: "string \<Rightarrow> compile_result \<Rightarrow> string" where
  "compile_report name result =
     (if c_success result then
        check_mark @ '' Compilation successful\<newline>\<newline>''
        @ ''**Model**: '' @ name @ ''\<newline>''
        @ ''**Requirements**: '' @ str_int (metrics_get (c_metrics result) ''requirements'') @ ''\<newline>''
        @ ''**Components**: '' @ str_int (metrics_get (c_metrics result) ''components'') @ ''\<newline>''
        @ ''**Functions**: '' @ str_int (metrics_get (c_metrics result) ''functions'') @ ''\<newline>''
        @ ''**Traces**: '' @ str_int (metrics_get (c_metrics result) ''traces'') @ ''\<newline>''
        @ ''\<newline>**Output**: '' @ ''N/A''
      else cross_mark @ '' Compilation failed\<newline>\<newline>**Errors**:\<newline>'' @ c_errors result)"

definition core_compile :: "core_tools \<Rightarrow> env \<Rightarrow> pydict \<Rightarrow> world \<Rightarrow> (error + string) \<times> world" where
  "core_compile self ev args w =
     (case and_then (dict_getitem args ''model_path'') (resolve_path self ev) of
        Inl e \<Rightarrow> (Inl e, w)
      | Inr model_path \<Rightarrow>
          (let validate = dict_get args ''validate'' (PBool True);
               optimize = dict_get args ''optimize'' (PBool False);
               (result, w') = compile (ct_compiler self) ev model_path validate optimize w
           in case result of
                Inl e \<Rightarrow> (Inl e, w')
              | Inr r \<Rightarrow> (Inr (compile_report (path_name ev model_path) r), w')))"

text \<open>\<^verbatim>\<open>_validate\<close>: at most five warnings and ten errors are listed.\<close>

definition bullet_lines :: "string list \<Rightarrow> string" where
  "bullet_lines xs = concat (map (\<lambda>x. ''  - '' @ x @ ''\<newline>'') xs)"

definition validate_report :: "string \<Rightarrow> validate_result \<Rightarrow> string" where
  "validate_report name result =
     (if v_valid result then
        check_mark @ '' Validation passed\<newline>\<newline>''
        @ ''**Model**: '' @ name @ ''\<newline>''
        @ ''**Syntax**: Valid\<newline>''
        @ ''**Semantics**: Valid\<newline>''
        @ (if v_warnings result \<noteq> [] then
             ''\<newline>'' @ warning_sign @ ''  **Warnings** (''
             @ str_int (int (length (v_warnings result))) @ ''):\<newline>''
             @ bullet_lines (take 5 (v_warnings result))
           else [])
      else
        cross_mark @ '' Validation failed\<newline>\<newline>''
        @ ''**Model**: '' @ name @ ''\<newline>\<newline>''
        @ ''**Errors** ('' @ str_int (int (length (v_errors result))) @ ''):\<newline>''
        @ bullet_lines (take 10 (v_errors result)))"

definition core_validate :: "core_tools \<Rightarrow> env \<Rightarrow> pydict \<Rightarrow> world \<Rightarrow> (error + string) \<times> world" where
  "core_validate self ev args w =
     (case and_then (dict_getitem args ''model_path'') (resolve_path self ev) of
        Inl e \<Rightarrow> (Inl e, w)
      | Inr model_path \<Rightarrow>
          (let strict = dict_get args ''strict'' (PBool False);
               (result, w') = validate (ct_compiler self) ev model_path strict w
           in (Inr (validate_report (path_name ev model_path) result), w')))"

text \<open>\<^verbatim>\<open>_trace_analysis\<close>. The coverage is written as \<^verbatim>\<open>result.get('coverage', 0)\<close> gives it
  and compared with 90 and 70; nothing else is done to it.
  \<^verbatim>\<open>
  output += f"**Coverage**: {result.get('coverage', 0)}%\n"
  ...
  if result.get("coverage", 0) >= 90:   output += "... Good traceability coverage"
  elif result.get("coverage", 0) >= 70: output += "... Moderate traceability coverage ..."
  else:                                 output += "... Low traceability coverage ..."
  \<close>
\<close>

definition gap_item :: "string \<Rightarrow> pyval \<Rightarrow> error + string" where
  "gap_item key item =
     and_then (pv_getitem item ''id'') (\<lambda>i.
     and_then (pv_get item key (PStr ''N/A'')) (\<lambda>d.
       Inr (''  - '' @ py_str i @ '': '' @ py_str d @ ''\<newline>'')))"

definition gap_block :: "string \<Rightarrow> string \<Rightarrow> pyval list \<Rightarrow> error + string" where
  "gap_block title key items =
     (if items \<noteq> [] then
        and_then (render_each (gap_item key) (take 5 items)) (\<lambda>lines.
          Inr (''**Untraced '' @ title @ ''** ('' @ str_int (int (length items)) @ ''):\<newline>''
               @ lines @ ''\<newline>''))
      else Inr [])"

definition untraced :: "(string \<times> pyval list) list \<Rightarrow> string \<Rightarrow> pyval list" where
  "untraced gaps key = (case map_of gaps key of None \<Rightarrow> [] | Some items \<Rightarrow> items)"

definition gaps_report :: "pyval \<Rightarrow> trace_result \<Rightarrow> error + string" where
  "gaps_report show_gaps result =
     (if truthy show_gaps \<and> t_gaps result \<noteq> [] then
        and_then (gap_block ''Requirements'' ''description''
                    (untraced (t_gaps result) ''untraced_requirements'')) (\<lambda>reqs.
        and_then (gap_block ''Components'' ''name''
                    (untraced (t_gaps result) ''untraced_components'')) (\<lambda>comps.
          Inr (warning_sign @ ''  **Gaps Found** (''
               @ str_int (int (length (t_gaps result))) @ ''):\<newline>\<newline>'' @ reqs @ comps)))
      else Inr [])"

definition coverage_verdict :: "int \<Rightarrow> string" where
  "coverage_verdict coverage =
     (if coverage \<ge> 90 then check_mark @ '' Good traceability coverage''
      else if coverage \<ge> 70 then
        warning_sign @ ''  Moderate traceability coverage - consider adding more traces''
      else cross_mark @ '' Low traceability coverage - significant gaps detected'')"

definition trace_report :: "string \<Rightarrow> pyval \<Rightarrow> trace_result \<Rightarrow> error + string" where
  "trace_report name show_gaps result =
     and_then (gaps_report show_gaps result) (\<lambda>gaps.
       Inr (link_icon @ '' **Traceability Analysis**\<newline>\<newline>''
            @ ''**Model**: '' @ name @ ''\<newline>''
            @ ''**Coverage**: '' @ str_int (t_coverage result) @ ''%\<newline>''
            @ ''**Total Traces**: '' @ str_int (t_total_traces result) @ ''\<newline>\<newline>''
            @ gaps @ coverage_verdict (t_coverage result)))"

definition core_trace_analysis :: "core_tools \<Rightarrow> env \<Rightarrow> pydict \<Rightarrow> world
    \<Rightarrow> (error + string) \<times> world" where
  "core_trace_analysis self ev args w =
     (case and_then (dict_getitem args ''model_path'') (resolve_path self ev) of
        Inl e \<Rightarrow> (Inl e, w)
      | Inr model_path \<Rightarrow>
          (let show_gaps = dict_get args ''show_gaps'' (PBool True);
               matrix = dict_get args ''matrix'' (PBool False);
               (result, w') = trace_analysis (ct_compiler self) ev model_path show_gaps matrix w
           in (trace_report (path_name ev model_path) show_gaps result, w')))"

text \<open>\<^verbatim>\<open>_export_diagram\<close>. The result of \<^verbatim>\<open>export_diagram\<close> has no key \<^verbatim>\<open>"metrics"\<close>, so that
  block is never written.\<close>

definition export_report :: "string \<Rightarrow> pyval \<Rightarrow> export_result \<Rightarrow> string" where
  "export_report name format_type result =
     (if e_success result then
        check_mark @ '' Diagram generated successfully\<newline>\<newline>''
        @ ''**Model**: '' @ name @ ''\<newline>''
        @ ''**Format**: '' @ py_str format_type @ ''\<newline>''
        @ ''**Output**: '' @ py_str (e_output_path result) @ ''\<newline>''
      else cross_mark @ '' Diagram generation failed\<newline>\<newline>'' @ py_str (e_error result))"

definition core_export_diagram :: "core_tools \<Rightarrow> env \<Rightarrow> pydict \<Rightarrow> world
    \<Rightarrow> (error + string) \<times> world" where
  "core_export_diagram self ev args w =
     (case and_then (dict_getitem args ''model_path'') (resolve_path self ev) of
        Inl e \<Rightarrow> (Inl e, w)
      | Inr model_path \<Rightarrow>
          (let format_type = dict_get args ''format'' (PStr ''html'');
               output_path = dict_get args ''output_path'' PNone;
               (result, w') = export_diagram (ct_compiler self) ev model_path format_type
                                output_path w
           in case result of
                Inl e \<Rightarrow> (Inl e, w')
              | Inr r \<Rightarrow> (Inr (export_report (path_name ev model_path) format_type r), w')))"

text \<open>\<^verbatim>\<open>_info\<close>. \<^verbatim>\<open>metrics.get("safety")\<close> is an integer when it is there, and an integer
  other than 0 has no \<^verbatim>\<open>get\<close>; the result has no key \<^verbatim>\<open>"coverage"\<close>.\<close>

definition info_report :: "string \<Rightarrow> info_result \<Rightarrow> error + string" where
  "info_report path_text result =
     (let m = i_metrics result
      in and_then
           (case map_of m ''safety'' of
              None \<Rightarrow> Inr []
            | Some v \<Rightarrow> if v \<noteq> 0 then Inl (no_attribute (PInt v) ''get'') else Inr [])
           (\<lambda>safety.
             Inr (chart_icon @ '' **Model Information**\<newline>\<newline>''
                  @ ''**Path**: '' @ path_text @ ''\<newline>''
                  @ ''**Size**: '' @ i_size_kb result @ '' KB\<newline>\<newline>''
                  @ ''**Metrics**:\<newline>''
                  @ ''  - Requirements: '' @ str_int (metrics_get m ''requirements'') @ ''\<newline>''
                  @ ''  - Components: '' @ str_int (metrics_get m ''components'') @ ''\<newline>''
                  @ ''  - Functions: '' @ str_int (metrics_get m ''functions'') @ ''\<newline>''
                  @ ''  - Traces: '' @ str_int (metrics_get m ''traces'') @ ''\<newline>''
                  @ ''  - Actors: '' @ str_int (metrics_get m ''actors'') @ ''\<newline>''
                  @ ''  - Nodes: '' @ str_int (metrics_get m ''nodes'') @ ''\<newline>\<newline>''
                  @ safety)))"

definition core_info :: "core_tools \<Rightarrow> env \<Rightarrow> pydict \<Rightarrow> world \<Rightarrow> (error + string) \<times> world" where
  "core_info self ev args w =
     (case and_then (dict_getitem args ''model_path'') (resolve_path self ev) of
        Inl e \<Rightarrow> (Inl e, w)
      | Inr model_path \<Rightarrow>
          (let detailed = dict_get args ''detailed'' (PBool False);
               (result, w') = info (ct_compiler self) ev model_path detailed w
           in case result of
                Inl e \<Rightarrow> (Inl e, w')
              | Inr r \<Rightarrow> (info_report (path_str ev model_path) r, w')))"

text \<open>
  \<^verbatim>\<open>
  async def execute(self, tool_name: str, arguments: Dict[str, Any]) -> str:
      if tool_name == "arclang_compile": return await self._compile(arguments)
      elif tool_name == "arclang_validate": return await self._validate(arguments)
      elif tool_name == "arclang_trace_analysis": return await self._trace_analysis(arguments)
      elif tool_name == "arclang_export_diagram": return await self._export_diagram(arguments)
      elif tool_name == "arclang_info": return await self._info(arguments)
      else: raise ValueError(f"Unknown core tool: {tool_name}")
  \<close>
\<close>

definition core_execute :: "core_tools \<Rightarrow> env \<Rightarrow> string \<Rightarrow> pydict \<Rightarrow> world
    \<Rightarrow> (error + string) \<times> world" where
  "core_execute self ev tool_name arguments w =
     (if tool_name = ''arclang_compile'' then core_compile self ev arguments w
      else if tool_name = ''arclang_validate'' then core_validate self ev arguments w
      else if tool_name = ''arclang_trace_analysis'' then core_trace_analysis self ev arguments w
      else if tool_name = ''arclang_export_diagram'' then core_export_diagram self ev arguments w
      else if tool_name = ''arclang_info'' then core_info self ev arguments w
      else (Inl (ValueError (''Unknown core tool: '' @ tool_name)), w))"

section \<open>Generation tools (tools/generation.py)\<close>

text \<open>
  \<^verbatim>\<open>
  async def _generate_requirement(self, args: Dict[str, Any]) -> str:
      description = args["description"]
      safety_level = args.get("safety_level")
      priority = args.get("priority", "High")
      requirement_code = await self.generator.generate_requirement(
          description=description, safety_level=safety_level, priority=priority)
      output = f"... **Generated Requirement**\n\n```arc\n{requirement_code}\n```\n\n"
      output += "**Next Steps**:\n" ...
      return output
  \<close>
\<close>

definition requirement_report :: "string \<Rightarrow> string" where
  "requirement_report requirement_code =
     sparkles @ '' **Generated Requirement**\<newline>\<newline>```arc\<newline>'' @ requirement_code
     @ ''\<newline>```\<newline>\<newline>''
     @ ''**Next Steps**:\<newline>''
     @ ''1. Review the generated requirement\<newline>''
     @ ''2. Adjust safety level if needed\<newline>''
     @ ''3. Add to your model file\<newline>''
     @ ''4. Create traceability links to components''"

definition gen_generate_requirement :: "generator \<Rightarrow> env \<Rightarrow> pydict \<Rightarrow> world
    \<Rightarrow> (error + string) \<times> world" where
  "gen_generate_requirement gen ev args w =
     (case dict_getitem args ''description'' of
        Inl e \<Rightarrow> (Inl e, w)
      | Inr description \<Rightarrow>
          (let safety_level = dict_get args ''safety_level'' PNone;
               priority = dict_get args ''priority'' (PStr ''High'');
               (code, w') = generate_requirement gen ev description safety_level priority w
           in (and_then code (\<lambda>c. Inr (requirement_report c)), w')))"

definition component_report :: "string \<Rightarrow> string" where
  "component_report component_code =
     sparkles @ '' **Generated Component**\<newline>\<newline>```arc\<newline>'' @ component_code
     @ ''\<newline>```\<newline>\<newline>''
     @ ''**Next Steps**:\<newline>''
     @ ''1. Review the component structure\<newline>''
     @ ''2. Add input/output ports if needed\<newline>''
     @ ''3. Add to your logical_architecture block\<newline>''
     @ ''4. Create traces to requirements''"

definition gen_generate_component :: "generator \<Rightarrow> env \<Rightarrow> pydict \<Rightarrow> world
    \<Rightarrow> (error + string) \<times> world" where
  "gen_generate_component gen ev args w =
     (case dict_getitem args ''description'' of
        Inl e \<Rightarrow> (Inl e, w)
      | Inr description \<Rightarrow>
          (let component_type = dict_get args ''component_type'' (PStr ''Logical'');
               safety_level = dict_get args ''safety_level'' PNone;
               (code, w') = generate_component gen ev description component_type safety_level w
           in (and_then code (\<lambda>c. Inr (component_report c)), w')))"

text \<open>
  \<^verbatim>\<open>
  for i, component in enumerate(suggestions.get("components", []), 1):
      output += f"{i}. **{component['name']}** ({component['type']})\n"
      output += f"   - Purpose: {component['description']}\n"
      if component.get("safety_level"):
          output += f"   - Safety: {component['safety_level']}\n"
      output += "\n"
  if suggestions.get("patterns"):
      output += "\n**Recommended Patterns**:\n"
      for pattern in suggestions["patterns"]:
          output += f"  - {pattern}\n"
  \<close>
  The suggestions are whatever \<^verbatim>\<open>json.loads\<close> made of the backend's answer, so every
  access can raise.
\<close>

definition component_item :: "nat \<times> pyval \<Rightarrow> error + string" where
  "component_item ic =
     (let i = fst ic; component = snd ic
      in and_then (pv_getitem component ''name'') (\<lambda>name.
         and_then (pv_getitem component ''type'') (\<lambda>type.
         and_then (pv_getitem component ''description'') (\<lambda>description.
         and_then (pv_get component ''safety_level'' PNone) (\<lambda>safety.
         and_then (if truthy safety then
                     and_then (pv_getitem component ''safety_level'') (\<lambda>s.
                       Inr (''   - Safety: '' @ py_str s @ ''\<newline>''))
                   else Inr []) (\<lambda>safety_text.
           Inr (str_int (int i) @ ''. **'' @ py_str name @ ''** ('' @ py_str type @ '')\<newline>''
                @ ''   - Purpose: '' @ py_str description @ ''\<newline>''
                @ safety_text @ ''\<newline>'')))))))"

definition patterns_block :: "pyval \<Rightarrow> error + string" where
  "patterns_block suggestions =
     and_then (pv_get suggestions ''patterns'' PNone) (\<lambda>patterns.
       if truthy patterns then
         and_then (py_iter patterns) (\<lambda>ps.
           Inr (''\<newline>**Recommended Patterns**:\<newline>''
                @ concat (map (\<lambda>pattern. ''  - '' @ py_str pattern @ ''\<newline>'') ps)))
       else Inr [])"

definition architecture_report :: "pyval \<Rightarrow> pyval \<Rightarrow> pyval \<Rightarrow> error + string" where
  "architecture_report domain requirements suggestions =
     and_then (str_method ''capitalize'' capitalize domain) (\<lambda>domain_text.
     and_then (py_len requirements) (\<lambda>n.
     and_then (pv_get suggestions ''components'' (PList [])) (\<lambda>components.
     and_then (py_iter components) (\<lambda>cs.
     and_then (render_each component_item (zip [1 ..< Suc (length cs)] cs)) (\<lambda>items.
     and_then (patterns_block suggestions) (\<lambda>patterns.
       Inr (bulb @ '' **Architecture Suggestions**\<newline>\<newline>''
            @ ''**Domain**: '' @ domain_text @ ''\<newline>''
            @ ''**Based on**: '' @ str_int (int n) @ '' requirements\<newline>\<newline>''
            @ ''**Suggested Components**:\<newline>\<newline>''
            @ items @ patterns
            @ ''\<newline>**Next Steps**:\<newline>''
            @ ''1. Review suggested architecture\<newline>''
            @ ''2. Refine based on your specific needs\<newline>''
            @ ''3. Generate individual components\<newline>''
            @ ''4. Establish data flows and interfaces'')))))))"

definition gen_suggest_architecture :: "generator \<Rightarrow> env \<Rightarrow> pydict \<Rightarrow> world
    \<Rightarrow> (error + string) \<times> world" where
  "gen_suggest_architecture gen ev args w =
     (case dict_getitem args ''requirements'' of
        Inl e \<Rightarrow> (Inl e, w)
      | Inr requirements \<Rightarrow>
          (let domain = dict_get args ''domain'' (PStr ''automotive'');
               (suggestions, w') = suggest_architecture gen ev requirements domain w
           in (and_then suggestions (architecture_report domain requirements), w')))"

definition generation_execute :: "generator \<Rightarrow> env \<Rightarrow> string \<Rightarrow> pydict \<Rightarrow> world
    \<Rightarrow> (error + string) \<times> world" where
  "generation_execute gen ev tool_name arguments w =
     (if tool_name = ''arclang_generate_requirement'' then gen_generate_requirement gen ev arguments w
      else if tool_name = ''arclang_generate_component'' then
        gen_generate_component gen ev arguments w
      else if tool_name = ''arclang_suggest_architecture'' then
        gen_suggest_architecture gen ev arguments w
      else (Inl (ValueError (''Unknown generation tool: '' @ tool_name)), w))"

section \<open>Safety tools (tools/safety.py)\<close>

text \<open>
  \<^verbatim>\<open>
  async def _safety_check(self, args: Dict[str, Any]) -> str:
      model_path = Path(args["model_path"])
      standard = args["standard"]
      generate_report = args.get("generate_report", False)
      result = await self.compiler.safety_check(model_path, standard=standard,
                                                generate_report=generate_report)
      ...
  \<close>
  The result has no key \<^verbatim>\<open>"report_path"\<close>, so the line of the detailed report is never
  written.
\<close>

definition issue_item :: "pyval \<Rightarrow> error + string" where
  "issue_item issue =
     and_then (pv_get issue ''severity'' (PStr ''warning'')) (\<lambda>severity.
     and_then (pv_getitem issue ''title'') (\<lambda>title.
     and_then (pv_getitem issue ''description'') (\<lambda>description.
       Inr ((if severity = PStr ''error'' then red_circle else warning_sign)
            @ '' **'' @ py_str title @ ''**\<newline>''
            @ ''   '' @ py_str description @ ''\<newline>\<newline>''))))"

definition safety_report :: "pyval \<Rightarrow> string \<Rightarrow> safety_result \<Rightarrow> error + string" where
  "safety_report standard name result =
     and_then (str_method ''upper'' upper standard) (\<lambda>standard_text.
     and_then (if s_issues result \<noteq> [] then
                 and_then (render_each issue_item (take 10 (s_issues result))) (\<lambda>items.
                   Inr (''**Issues Found** ('' @ str_int (int (length (s_issues result)))
                        @ ''):\<newline>\<newline>'' @ items))
               else Inr []) (\<lambda>issues.
       Inr (shield @ ''  **Safety Compliance Check**\<newline>\<newline>''
            @ ''**Standard**: '' @ standard_text @ ''\<newline>''
            @ ''**Model**: '' @ name @ ''\<newline>\<newline>''
            @ (if s_compliant result then check_mark @ '' **Status**: Compliant\<newline>\<newline>''
               else cross_mark @ '' **Status**: Non-compliant\<newline>\<newline>'')
            @ issues
            @ (if s_recommendations result \<noteq> [] then
                 ''\<newline>**Recommendations**:\<newline>''
                 @ concat (map (\<lambda>rec. ''  - '' @ py_str rec @ ''\<newline>'')
                             (take 5 (s_recommendations result)))
               else []))))"

definition tool_safety_check :: "compiler \<Rightarrow> env \<Rightarrow> pydict \<Rightarrow> world \<Rightarrow> (error + string) \<times> world" where
  "tool_safety_check cc ev args w =
     (case and_then (dict_getitem args ''model_path'') (make_path ev) of
        Inl e \<Rightarrow> (Inl e, w)
      | Inr model_path \<Rightarrow>
          (case dict_getitem args ''standard'' of
             Inl e \<Rightarrow> (Inl e, w)
           | Inr standard \<Rightarrow>
               (let generate_report = dict_get args ''generate_report'' (PBool False);
                    (result, w') = safety_check cc ev model_path standard generate_report w
                in (safety_report standard (path_name ev model_path) result, w'))))"

text \<open>
  \<^verbatim>\<open>
  async def _hazard_analysis(self, args: Dict[str, Any]) -> str:
      model_path = Path(args["model_path"])
      standard = args.get("standard", "iso26262")
      result = await self.compiler.hazard_analysis(model_path, standard=standard)
      ...
  \<close>
\<close>

definition hazard_item :: "pyval \<Rightarrow> error + string" where
  "hazard_item hazard =
     and_then (pv_getitem hazard ''id'') (\<lambda>i.
     and_then (pv_getitem hazard ''description'') (\<lambda>description.
     and_then (pv_getitem hazard ''severity'') (\<lambda>severity.
     and_then (pv_get hazard ''exposure'' (PStr ''N/A'')) (\<lambda>exposure.
     and_then (pv_get hazard ''controllability'' (PStr ''N/A'')) (\<lambda>controllability.
     and_then (pv_get hazard ''asil'' (PStr ''N/A'')) (\<lambda>asil.
       Inr (''**'' @ py_str i @ ''**: '' @ py_str description @ ''\<newline>''
            @ ''  - Severity: '' @ py_str severity @ ''\<newline>''
            @ ''  - Exposure: '' @ py_str exposure @ ''\<newline>''
            @ ''  - Controllability: '' @ py_str controllability @ ''\<newline>''
            @ ''  - ASIL: '' @ py_str asil @ ''\<newline>\<newline>'')))))))"

definition hazard_report :: "pyval \<Rightarrow> string \<Rightarrow> pyval list \<Rightarrow> error + string" where
  "hazard_report standard name hazards =
     and_then (str_method ''upper'' upper standard) (\<lambda>standard_text.
     and_then (render_each hazard_item (take 5 hazards)) (\<lambda>items.
       Inr (warning_sign @ ''  **Hazard Analysis (HARA)**\<newline>\<newline>''
            @ ''**Standard**: '' @ standard_text @ ''\<newline>''
            @ ''**Model**: '' @ name @ ''\<newline>\<newline>''
            @ ''**Hazards Identified**: '' @ str_int (int (length hazards)) @ ''\<newline>\<newline>''
            @ items)))"

definition tool_hazard_analysis :: "compiler \<Rightarrow> env \<Rightarrow> pydict \<Rightarrow> world
    \<Rightarrow> (error + string) \<times> world" where
  "tool_hazard_analysis cc ev args w =
     (case and_then (dict_getitem args ''model_path'') (make_path ev) of
        Inl e \<Rightarrow> (Inl e, w)
      | Inr model_path \<Rightarrow>
          (let standard = dict_get args ''standard'' (PStr ''iso26262'');
               (hazards, w') = hazard_analysis cc ev model_path standard w
           in (hazard_report standard (path_name ev model_path) hazards, w')))"

definition safety_execute :: "compiler \<Rightarrow> env \<Rightarrow> string \<Rightarrow> pydict \<Rightarrow> world
    \<Rightarrow> (error + string) \<times> world" where
  "safety_execute cc ev tool_name arguments w =
     (if tool_name = ''arclang_safety_check'' then tool_safety_check cc ev arguments w
      else if tool_name = ''arclang_hazard_analysis'' then tool_hazard_analysis cc ev arguments w
      else (Inl (ValueError (''Unknown safety tool: '' @ tool_name)), w))"

section \<open>Integration tools (tools/integration.py)\<close>

text \<open>
  \<^verbatim>\<open>
  async def _git_merge(self, args: Dict[str, Any]) -> str:
      base_path = Path(args["base_path"])
      ours_path = Path(args["ours_path"])
      theirs_path = Path(args["theirs_path"])
      result = await self.compiler.semantic_merge(base_path=base_path, ours_path=ours_path,
                                                  theirs_path=theirs_path)
      ...
  \<close>
\<close>

definition conflict_item :: "pyval \<Rightarrow> error + string" where
  "conflict_item conflict =
     and_then (pv_getitem conflict ''id'') (\<lambda>i.
     and_then (pv_getitem conflict ''type'') (\<lambda>type.
     and_then (pv_get conflict ''ours_summary'' (PStr ''N/A'')) (\<lambda>ours.
     and_then (pv_get conflict ''theirs_summary'' (PStr ''N/A'')) (\<lambda>theirs.
     and_then (pv_get conflict ''suggestion'' (PStr ''Manual resolution needed'')) (\<lambda>suggestion.
       Inr (''**'' @ py_str i @ ''**:\<newline>''
            @ ''  - Type: '' @ py_str type @ ''\<newline>''
            @ ''  - Ours: '' @ py_str ours @ ''\<newline>''
            @ ''  - Theirs: '' @ py_str theirs @ ''\<newline>''
            @ ''  - Suggestion: '' @ py_str suggestion @ ''\<newline>\<newline>''))))))"

definition merge_report :: "merge_result \<Rightarrow> error + string" where
  "merge_report result =
     (if m_clean_merge result then
        Inr (shuffle_icon @ '' **Semantic Merge Analysis**\<newline>\<newline>''
             @ check_mark @ '' **Clean merge** - No conflicts!\<newline>\<newline>''
             @ ''**Elements merged**: '' @ str_int (m_merged_count result) @ ''\<newline>'')
      else
        and_then (render_each conflict_item (take 5 (m_conflicts result))) (\<lambda>items.
          Inr (shuffle_icon @ '' **Semantic Merge Analysis**\<newline>\<newline>''
               @ warning_sign @ ''  **Conflicts detected**: ''
               @ str_int (int (length (m_conflicts result))) @ ''\<newline>\<newline>'' @ items)))"

definition git_merge :: "compiler \<Rightarrow> env \<Rightarrow> pydict \<Rightarrow> world \<Rightarrow> (error + string) \<times> world" where
  "git_merge cc ev args w =
     (case and_then (dict_getitem args ''base_path'') (make_path ev) of
        Inl e \<Rightarrow> (Inl e, w)
      | Inr base_path \<Rightarrow>
          (case and_then (dict_getitem args ''ours_path'') (make_path ev) of
             Inl e \<Rightarrow> (Inl e, w)
           | Inr ours_path \<Rightarrow>
               (case and_then (dict_getitem args ''theirs_path'') (make_path ev) of
                  Inl e \<Rightarrow> (Inl e, w)
                | Inr theirs_path \<Rightarrow>
                    (let (result, w') = semantic_merge cc base_path ours_path theirs_path w
                     in (merge_report result, w')))))"

text \<open>
  \<^verbatim>\<open>
  async def _plm_sync(self, args: Dict[str, Any]) -> str:
      model_path = Path(args["model_path"])
      system = args["system"]
      operation = args.get("operation", "pull")
      result = await self.compiler.plm_sync(model_path=model_path, system=system,
                                            operation=operation)
      ...
  \<close>
\<close>

definition plm_report :: "pyval \<Rightarrow> pyval \<Rightarrow> string \<Rightarrow> plm_result \<Rightarrow> error + string" where
  "plm_report system operation name result =
     and_then (str_method ''upper'' upper system) (\<lambda>system_text.
       Inr (sync_icon @ '' **PLM Synchronization**\<newline>\<newline>''
            @ ''**System**: '' @ system_text @ ''\<newline>''
            @ ''**Operation**: '' @ py_str operation @ ''\<newline>''
            @ ''**Model**: '' @ name @ ''\<newline>\<newline>''
            @ (if p_success result then
                 check_mark @ '' Synchronization successful\<newline>\<newline>''
                 @ (if operation = PStr ''pull'' then
                      ''**Changes pulled**: '' @ str_int (p_changes_count result) @ ''\<newline>''
                    else if operation = PStr ''push'' then
                      ''**Changes pushed**: '' @ str_int (p_changes_count result) @ ''\<newline>''
                    else [])
               else cross_mark @ '' Synchronization failed\<newline>\<newline>'' @ py_str (p_error result))))"

definition tool_plm_sync :: "compiler \<Rightarrow> env \<Rightarrow> pydict \<Rightarrow> world \<Rightarrow> (error + string) \<times> world" where
  "tool_plm_sync cc ev args w =
     (case and_then (dict_getitem args ''model_path'') (make_path ev) of
        Inl e \<Rightarrow> (Inl e, w)
      | Inr model_path \<Rightarrow>
          (case dict_getitem args ''system'' of
             Inl e \<Rightarrow> (Inl e, w)
           | Inr system \<Rightarrow>
               (let operation = dict_get args ''operation'' (PStr ''pull'');
                    (result, w') = plm_sync cc ev model_path system operation w
                in (plm_report system operation (path_name ev model_path) result, w'))))"

definition integration_execute :: "compiler \<Rightarrow> env \<Rightarrow> string \<Rightarrow> pydict \<Rightarrow> world
    \<Rightarrow> (error + string) \<times> world" where
  "integration_execute cc ev tool_name arguments w =
     (if tool_name = ''arclang_git_merge'' then git_merge cc ev arguments w
      else if tool_name = ''arclang_plm_sync'' then tool_plm_sync cc ev arguments w
      else (Inl (ValueError (''Unknown integration tool: '' @ tool_name)), w))"

section \<open>Tool dispatcher (server.py)\<close>

text \<open>The server holds one compiler, shared by the tool groups, the workspace root and
  the generator.\<close>

record server =
  srv_compiler :: compiler
  srv_workspace_root :: path
  srv_generator :: generator

definition core_tools_of :: "server \<Rightarrow> core_tools" where
  "core_tools_of self = \<lparr>ct_compiler = srv_compiler self, workspace_root = srv_workspace_root self\<rparr>"

datatype content = TextContent string

text \<open>
  \<^verbatim>\<open>
  async def call_tool(name: str, arguments: Dict[str, Any]) -> List[TextContent | ImageContent]:
      try:
          if name.startswith("arclang_compile") or name in ["arclang_validate",
                  "arclang_trace_analysis", "arclang_export_diagram", "arclang_info"]:
              result = await self.core_tools.execute(name, arguments)
          elif name.startswith("arclang_generate") or name == "arclang_suggest_architecture":
              result = await self.generation_tools.execute(name, arguments)
          elif name.startswith("arclang_safety") or name == "arclang_hazard_analysis":
              result = await self.safety_tools.execute(name, arguments)
          elif name.startswith("arclang_git") or name.startswith("arclang_plm"):
              result = await self.integration_tools.execute(name, arguments)
          else:
              raise ValueError(f"Unknown tool: {name}")
          return [TextContent(type="text", text=result)]
      except Exception as e:
          logger.error(f"Error executing tool {name}: {e}")
          return [TextContent(type="text", text=f"Error: {str(e)}")]
  \<close>
  \<open>route\<close> is the body of the \<^verbatim>\<open>try\<close> up to the result, \<open>call_tool\<close> the whole function.
\<close>

definition route :: "server \<Rightarrow> env \<Rightarrow> string \<Rightarrow> pydict \<Rightarrow> world \<Rightarrow> (error + string) \<times> world" where
  "route self ev name arguments w =
     (if startswith name ''arclang_compile''
         \<or> name \<in> set [''arclang_validate'', ''arclang_trace_analysis'',
                        ''arclang_export_diagram'', ''arclang_info''] then
        core_execute (core_tools_of self) ev name arguments w
      else if startswith name ''arclang_generate'' \<or> name = ''arclang_suggest_architecture'' then
        generation_execute (srv_generator self) ev name arguments w
      else if startswith name ''arclang_safety'' \<or> name = ''arclang_hazard_analysis'' then
        safety_execute (srv_compiler self) ev name arguments w
      else if startswith name ''arclang_git'' \<or> startswith name ''arclang_plm'' then
        integration_execute (srv_compiler self) ev name arguments w
      else (Inl (ValueError (''Unknown tool: '' @ name)), w))"

definition call_tool :: "server \<Rightarrow> env \<Rightarrow> string \<Rightarrow> pydict \<Rightarrow> world \<Rightarrow> content list \<times> world" where
  "call_tool self ev name arguments w =
     (case route self ev name arguments w of
        (Inr result, w') \<Rightarrow> ([TextContent result], w')
      | (Inl e, w') \<Rightarrow> ([TextContent (''Error: '' @ str_error e)], w'))"

text \<open>The catalogue of \<^verbatim>\<open>list_tools\<close>: each tool's name with the \<^verbatim>\<open>"required"\<close> list of its
  input schema.\<close>

definition tool_catalogue :: "(string \<times> string list) list" where
  "tool_catalogue =
     [(''arclang_compile'', [''model_path'']),
      (''arclang_validate'', [''model_path'']),
      (''arclang_trace_analysis'', [''model_path'']),
      (''arclang_export_diagram'', [''model_path'']),
      (''arclang_info'', [''model_path'']),
      (''arclang_generate_requirement'', [''description'']),
      (''arclang_generate_component'', [''description'']),
      (''arclang_suggest_architecture'', [''requirements'']),
      (''arclang_safety_check'', [''model_path'', ''standard'']),
      (''arclang_hazard_analysis'', [''model_path'']),
      (''arclang_git_merge'', [''base_path'', ''ours_path'', ''theirs_path''])]"

section \<open>Notions used in the statements\<close>

text \<open>Two notions used to state properties of the parser: a line that one of the four
  branches of \<open>parse_metrics_line\<close> takes, and the label that each key is stored under.\<close>

definition labelled :: "string \<Rightarrow> bool" where
  "labelled line = (contains ''Requirements:'' line \<or> contains ''Components:'' line
                    \<or> contains ''Functions:'' line \<or> contains ''Traces:'' line)"

definition metric_labels :: "(string \<times> string) list" where
  "metric_labels = [(''Requirements:'', ''requirements''), (''Components:'', ''components''),
                    (''Functions:'', ''functions''), (''Traces:'', ''traces'')]"

text \<open>The number of positions of a text at which a given piece occurs.\<close>

fun count_occ :: "string \<Rightarrow> string \<Rightarrow> nat" where
  "count_occ sub [] = (if sub = [] then 1 else 0)"
| "count_occ sub (c # cs) = (if prefix sub (c # cs) then 1 else 0) + count_occ sub cs"

text \<open>Concrete surroundings for the examples: a world in which nothing was called yet, a
  server with the default compiler and no API key, one with a client, and
  collaborators that answer every command and every prompt in a fixed way. Paths are
  taken as their text.\<close>

definition fresh :: world where
  "fresh = \<lparr>exec_calls = [], backend_calls = []\<rparr>"

definition fixed_env :: "proc_event \<Rightarrow> (error + string list) \<Rightarrow> (error + pyval) \<Rightarrow> env" where
  "fixed_env event answer parsed =
     \<lparr>subprocess_exec = (\<lambda>argv. event), decode = Inr,
      messages_create = (\<lambda>model max_tokens prompt. answer),
      json_loads = (\<lambda>text. parsed),
      Path = (\<lambda>s. s), path_str = (\<lambda>p. p), path_name = (\<lambda>p. p),
      is_absolute = (\<lambda>p. True), joinpath = (\<lambda>a b. b),
      with_suffix = (\<lambda>p s. Inr (p @ s)), size_kb = (\<lambda>p. Inr ''0'')\<rparr>"

definition offline_server :: server where
  "offline_server =
     \<lparr>srv_compiler = ArcLangCompiler None None None, srv_workspace_root = ''/ws'',
      srv_generator = AIGenerator [] None\<rparr>"

definition online_server :: server where
  "online_server =
     \<lparr>srv_compiler = ArcLangCompiler None None None, srv_workspace_root = ''/ws'',
      srv_generator = AIGenerator [] (Some ''key'')\<rparr>"


text \<open>The required arguments of a call that are present are strings, as the schemas of
  the catalogue have them (every required argument is a string but \<^verbatim>\<open>requirements\<close>, the
  only required argument of its tool).\<close>

definition typed :: "pydict \<Rightarrow> string list \<Rightarrow> bool" where
  "typed args required =
     list_all (\<lambda>k. case map_of args k of
                      None \<Rightarrow> True
                    | Some v \<Rightarrow> (case v of PStr s \<Rightarrow> True | _ \<Rightarrow> False))
       required"

section \<open>Verified properties\<close>

subsection \<open>Metrics extraction\<close>

lemma set_metric_keys:
  assumes "set_metric key line m = Inr m'"
  shows "fst ` set m' = insert key (fst ` set m)"
proof -
  from assms obtain v where "m' = AList.update key v m"
    by (auto simp: set_metric_def split: sum.splits)
  then show ?thesis
    using dom_update [of key v m] by simp
qed

lemma parse_metrics_line_keys:
  assumes "parse_metrics_line line m = Inr m'"
  shows "fst ` set m' \<subseteq> fst ` set m \<union> {k. \<exists>lab. (lab, k) \<in> set metric_labels \<and> contains lab line}"
proof -
  consider (r) "contains ''Requirements:'' line" "set_metric ''requirements'' line m = Inr m'"
    | (c) "contains ''Components:'' line" "set_metric ''components'' line m = Inr m'"
    | (f) "contains ''Functions:'' line" "set_metric ''functions'' line m = Inr m'"
    | (t) "contains ''Traces:'' line" "set_metric ''traces'' line m = Inr m'"
    | (n) "m' = m"
    using assms unfolding parse_metrics_line_def by (auto split: if_splits)
  then show ?thesis
  proof cases
    case r
    from set_metric_keys [OF r(2)] r(1) show ?thesis
      by (auto simp: metric_labels_def)
  next
    case c
    from set_metric_keys [OF c(2)] c(1) show ?thesis
      by (auto simp: metric_labels_def)
  next
    case f
    from set_metric_keys [OF f(2)] f(1) show ?thesis
      by (auto simp: metric_labels_def)
  next
    case t
    from set_metric_keys [OF t(2)] t(1) show ?thesis
      by (auto simp: metric_labels_def)
  next
    case n
    then show ?thesis by auto
  qed
qed

lemma parse_metrics_line_total:
  assumes "labelled line \<longrightarrow> (\<exists>v. py_int (trailing_field line) = Inr v)"
  shows "\<exists>m'. parse_metrics_line line m = Inr m'"
  using assms unfolding parse_metrics_line_def labelled_def set_metric_def
  by (auto split: sum.splits)

lemma parse_metrics_loop_sparse:
  assumes "\<forall>line \<in> set ls. labelled line \<longrightarrow> (\<exists>v. py_int (trailing_field line) = Inr v)"
  shows "\<exists>m'. parse_metrics_loop ls m = Inr m' \<and>
           fst ` set m' \<subseteq> fst ` set m \<union>
             {k. \<exists>lab line. line \<in> set ls \<and> (lab, k) \<in> set metric_labels \<and> contains lab line}"
  using assms
proof (induction ls arbitrary: m)
  case Nil
  then show ?case by simp
next
  case (Cons line rest)
  from Cons.prems obtain m1 where m1: "parse_metrics_line line m = Inr m1"
    using parse_metrics_line_total [of line m] by auto
  from Cons.prems have "\<forall>l \<in> set rest. labelled l \<longrightarrow> (\<exists>v. py_int (trailing_field l) = Inr v)"
    by simp
  from Cons.IH [OF this, of m1] obtain m2 where
    m2: "parse_metrics_loop rest m1 = Inr m2"
    and k2: "fst ` set m2 \<subseteq> fst ` set m1 \<union>
      {k. \<exists>lab l. l \<in> set rest \<and> (lab, k) \<in> set metric_labels \<and> contains lab l}"
    by blast
  have "fst ` set m2 \<subseteq> fst ` set m \<union>
      {k. \<exists>lab l. l \<in> set (line # rest) \<and> (lab, k) \<in> set metric_labels \<and> contains lab l}"
  proof
    fix k assume "k \<in> fst ` set m2"
    with k2 consider "k \<in> fst ` set m1"
      | "\<exists>lab l. l \<in> set rest \<and> (lab, k) \<in> set metric_labels \<and> contains lab l" by blast
    then show "k \<in> fst ` set m \<union>
      {k. \<exists>lab l. l \<in> set (line # rest) \<and> (lab, k) \<in> set metric_labels \<and> contains lab l}"
    proof cases
      case 1
      with parse_metrics_line_keys [OF m1]
      have "k \<in> fst ` set m \<or> (\<exists>lab. (lab, k) \<in> set metric_labels \<and> contains lab line)"
        by blast
      then show ?thesis by fastforce
    next
      case 2
      then show ?thesis by fastforce
    qed
  qed
  with m1 m2 show ?case by simp
qed

lemma metrics_get_absent: "k \<notin> fst ` set m \<Longrightarrow> metrics_get m k = 0"
  using map_of_eq_None_iff [of m k] by (simp add: metrics_get_def)

text \<open>
  Claim C1, as the code has it. When every line that names a label carries an integer
  after its last colon, metrics extraction returns a mapping; its keys are among
  requirements, components, functions and traces, and a metric whose label no line
  contains is not stored at all: it reads as 0 only through \<open>metrics_get\<close>, the
  default of the reader.
\<close>

theorem parse_metrics_sparse:
  assumes "\<forall>line \<in> set (split_on CHR 0x0A output).
             labelled line \<longrightarrow> (\<exists>v. py_int (trailing_field line) = Inr v)"
  shows "\<exists>m. parse_metrics output = Inr m
           \<and> fst ` set m \<subseteq> {''requirements'', ''components'', ''functions'', ''traces''}
           \<and> (\<forall>lab key. (lab, key) \<in> set metric_labels
                 \<and> (\<forall>line \<in> set (split_on CHR 0x0A output). \<not> contains lab line)
                 \<longrightarrow> key \<notin> fst ` set m \<and> metrics_get m key = 0)"
proof -
  from parse_metrics_loop_sparse [OF assms, of "[]"] obtain m where
    m: "parse_metrics output = Inr m"
    and keys: "fst ` set m \<subseteq>
      {k. \<exists>lab line. line \<in> set (split_on CHR 0x0A output) \<and> (lab, k) \<in> set metric_labels \<and> contains lab line}"
    by (auto simp: parse_metrics_def)
  have a: "fst ` set m \<subseteq> {''requirements'', ''components'', ''functions'', ''traces''}"
    using keys by (auto simp: metric_labels_def)
  have b: "key \<notin> fst ` set m \<and> metrics_get m key = 0"
    if "(lab, key) \<in> set metric_labels" "\<forall>line \<in> set (split_on CHR 0x0A output). \<not> contains lab line"
    for lab key
  proof -
    have "key \<notin> fst ` set m"
    proof
      assume "key \<in> fst ` set m"
      with keys obtain lab' line where "line \<in> set (split_on CHR 0x0A output)"
        "(lab', key) \<in> set metric_labels" "contains lab' line" by blast
      moreover from this(2) that(1) have "lab' = lab" by (auto simp: metric_labels_def)
      ultimately show False using that(2) by blast
    qed
    then show ?thesis by (simp add: metrics_get_absent)
  qed
  from m a b show ?thesis by blast
qed

text \<open>An output of two lines: a trace count and a line without a label.\<close>

theorem parse_metrics_sparse_witness:
  "split_on CHR 0x0A ''Traces: 7\<newline>noise'' = [''Traces: 7'', ''noise'']
   \<and> py_int (trailing_field ''Traces: 7'') = Inr 7
   \<and> \<not> labelled ''noise''
   \<and> (\<exists>m. parse_metrics ''Traces: 7\<newline>noise'' = Inr m
           \<and> fst ` set m \<subseteq> {''requirements'', ''components'', ''functions'', ''traces''}
           \<and> (\<forall>lab key. (lab, key) \<in> set metric_labels
                 \<and> (\<forall>line \<in> set (split_on CHR 0x0A ''Traces: 7\<newline>noise''). \<not> contains lab line)
                 \<longrightarrow> key \<notin> fst ` set m \<and> metrics_get m key = 0))"
proof -
  have lines: "split_on CHR 0x0A ''Traces: 7\<newline>noise'' = [''Traces: 7'', ''noise'']"
    by code_simp
  have v: "py_int (trailing_field ''Traces: 7'') = Inr 7"
    by code_simp
  have n: "\<not> labelled ''noise''"
    by code_simp
  have h: "\<forall>line \<in> set (split_on CHR 0x0A ''Traces: 7\<newline>noise'').
       labelled line \<longrightarrow> (\<exists>v. py_int (trailing_field line) = Inr v)"
    unfolding lines using v n by simp
  from parse_metrics_sparse [OF h] lines v n show ?thesis by blast
qed

text \<open>Claim C1 as stated asks for every field to be present in the mapping. On the
  empty output the mapping is empty.\<close>

theorem parse_metrics_empty_counterexample:
  "parse_metrics '''' = Inr [] \<and> map_of ([] :: metrics) ''requirements'' = None"
  by (simp add: parse_metrics_def split_on_def parse_metrics_line_def)

text \<open>A label followed by text that is no integer: the \<^verbatim>\<open>ValueError\<close> of \<^verbatim>\<open>int\<close> leaves
  \<open>parse_metrics\<close>.\<close>

lemma parse_metrics_malformed_raises:
  "parse_metrics ''Requirements: abc'' =
     Inl (ValueError (''invalid literal for int() with base 10: '' @ repr_str ''abc''))"
  by code_simp

subsection \<open>Process invoker\<close>

lemma cmd_strings_map: "cmd_strings (map PStr argv) = Inr argv"
  by (induction argv) simp_all

text \<open>
  Claim C3. When the timeout expires the result has return code -1, an empty output and
  the timeout message in its error text; when the launch fails with another exception
  the result has return code -1 and the text of that exception; whatever is raised
  inside the \<^verbatim>\<open>try\<close> (a failed decoding and an argument that is no string included) ends
  in return code -1; a process that ends is reported as it ended. \<open>run_command\<close>
  returns a result for every input, and records one call.
\<close>

theorem run_command_normalised:
  "(subprocess_exec ev argv = Raised TimeoutError \<longrightarrow>
      fst (run_command self ev (map PStr argv) w) =
        \<lparr>returncode = - 1, stdout = [],
         stderr = ''Command timed out after '' @ str_int (timeout self) @ '' seconds''\<rparr>)
   \<and> (subprocess_exec ev argv = Raised e \<and> e \<noteq> TimeoutError \<longrightarrow>
      fst (run_command self ev (map PStr argv) w) =
        \<lparr>returncode = - 1, stdout = [], stderr = str_error e\<rparr>)
   \<and> (run_command_try ev cmd = Inl e \<longrightarrow>
      returncode (fst (run_command self ev cmd w)) = - 1
      \<and> stdout (fst (run_command self ev cmd w)) = [])
   \<and> (run_command_try ev cmd = Inr r \<longrightarrow> fst (run_command self ev cmd w) = r)
   \<and> snd (run_command self ev cmd w) = w\<lparr>exec_calls := exec_calls w @ [cmd]\<rparr>"
proof -
  have t: "fst (run_command self ev (map PStr argv) w) =
        \<lparr>returncode = - 1, stdout = [],
         stderr = ''Command timed out after '' @ str_int (timeout self) @ '' seconds''\<rparr>"
    if "subprocess_exec ev argv = Raised TimeoutError"
    using that by (simp add: run_command_def run_command_try_def cmd_strings_map Let_def)
  have l: "fst (run_command self ev (map PStr argv) w) =
        \<lparr>returncode = - 1, stdout = [], stderr = str_error e\<rparr>"
    if "subprocess_exec ev argv = Raised e" "e \<noteq> TimeoutError"
    using that by (cases e) (simp_all add: run_command_def run_command_try_def cmd_strings_map Let_def)
  have f: "returncode (fst (run_command self ev cmd w)) = - 1
      \<and> stdout (fst (run_command self ev cmd w)) = []"
    if "run_command_try ev cmd = Inl e"
    using that by (cases e) (simp_all add: run_command_def Let_def)
  have s: "fst (run_command self ev cmd w) = r" if "run_command_try ev cmd = Inr r"
    using that by (simp add: run_command_def Let_def)
  have w: "snd (run_command self ev cmd w) = w\<lparr>exec_calls := exec_calls w @ [cmd]\<rparr>"
    by (simp add: run_command_def Let_def split: sum.splits error.splits)
  from t l f s w show ?thesis by blast
qed

text \<open>A timeout and a missing binary, with the default timeout of 30 seconds; an argument
  vector with a number in it; and a process that ends with return code 2.\<close>

theorem run_command_normalised_witness:
  "subprocess_exec (fixed_env (Raised TimeoutError) (Inr []) (Inr PNone)) [''arclang'', ''build'', ''m.arc'']
     = Raised TimeoutError
   \<and> fst (run_command (ArcLangCompiler None None None)
            (fixed_env (Raised TimeoutError) (Inr []) (Inr PNone))
            (map PStr [''arclang'', ''build'', ''m.arc'']) fresh) =
        \<lparr>returncode = - 1, stdout = [], stderr = ''Command timed out after 30 seconds''\<rparr>
   \<and> subprocess_exec (fixed_env (Raised (OSError ''[Errno 2] No such file or directory: arclang''))
         (Inr []) (Inr PNone)) [''arclang'', ''build'', ''m.arc'']
     = Raised (OSError ''[Errno 2] No such file or directory: arclang'')
   \<and> fst (run_command (ArcLangCompiler None None None)
            (fixed_env (Raised (OSError ''[Errno 2] No such file or directory: arclang''))
               (Inr []) (Inr PNone))
            (map PStr [''arclang'', ''build'', ''m.arc'']) fresh) =
        \<lparr>returncode = - 1, stdout = [],
         stderr = ''[Errno 2] No such file or directory: arclang''\<rparr>
   \<and> run_command_try (fixed_env (Exited 0 [] []) (Inr []) (Inr PNone))
         [PStr ''arclang'', PStr ''safety'', PStr ''m.arc'', PStr ''--standard'', PInt 26262] =
       Inl (TypeError ''expected str, bytes or os.PathLike object, not int'')
   \<and> returncode (fst (run_command (ArcLangCompiler None None None)
         (fixed_env (Exited 0 [] []) (Inr []) (Inr PNone))
         [PStr ''arclang'', PStr ''safety'', PStr ''m.arc'', PStr ''--standard'', PInt 26262]
         fresh)) = - 1
   \<and> run_command_try (fixed_env (Exited 2 ''out'' ''error: bad model'') (Inr []) (Inr PNone))
         [PStr ''arclang'', PStr ''check'', PStr ''m.arc''] =
       Inr \<lparr>returncode = 2, stdout = ''out'', stderr = ''error: bad model''\<rparr>
   \<and> run_command (ArcLangCompiler None None None)
         (fixed_env (Exited 2 ''out'' ''error: bad model'') (Inr []) (Inr PNone))
         [PStr ''arclang'', PStr ''check'', PStr ''m.arc''] fresh =
       (\<lparr>returncode = 2, stdout = ''out'', stderr = ''error: bad model''\<rparr>,
        \<lparr>exec_calls = [[PStr ''arclang'', PStr ''check'', PStr ''m.arc'']], backend_calls = []\<rparr>)"
proof -
  have a: "subprocess_exec (fixed_env (Raised TimeoutError) (Inr []) (Inr PNone))
             [''arclang'', ''build'', ''m.arc''] = Raised TimeoutError"
    by (simp add: fixed_env_def)
  have b: "subprocess_exec (fixed_env (Raised (OSError ''[Errno 2] No such file or directory: arclang''))
         (Inr []) (Inr PNone)) [''arclang'', ''build'', ''m.arc'']
     = Raised (OSError ''[Errno 2] No such file or directory: arclang'')"
    by (simp add: fixed_env_def)
  have c: "str_int (timeout (ArcLangCompiler None None None)) = ''30''"
    by (simp add: ArcLangCompiler_def str_int_def)
  have d: "run_command_try (fixed_env (Exited 0 [] []) (Inr []) (Inr PNone))
         [PStr ''arclang'', PStr ''safety'', PStr ''m.arc'', PStr ''--standard'', PInt 26262] =
       Inl (TypeError ''expected str, bytes or os.PathLike object, not int'')"
    by (simp add: run_command_try_def)
  have e: "run_command_try (fixed_env (Exited 2 ''out'' ''error: bad model'') (Inr []) (Inr PNone))
         [PStr ''arclang'', PStr ''check'', PStr ''m.arc''] =
       Inr \<lparr>returncode = 2, stdout = ''out'', stderr = ''error: bad model''\<rparr>"
    by (simp add: run_command_try_def fixed_env_def)
  note t1 = run_command_normalised
         [of "fixed_env (Raised TimeoutError) (Inr []) (Inr PNone)"
             "[''arclang'', ''build'', ''m.arc'']" "ArcLangCompiler None None None" fresh]
  note t2 = run_command_normalised
         [of "fixed_env (Raised (OSError ''[Errno 2] No such file or directory: arclang'')) (Inr []) (Inr PNone)"
             "[''arclang'', ''build'', ''m.arc'']" "ArcLangCompiler None None None" fresh
             "OSError ''[Errno 2] No such file or directory: arclang''"]
  note t3 = run_command_normalised
         [of "fixed_env (Exited 0 [] []) (Inr []) (Inr PNone)" _ "ArcLangCompiler None None None"
             fresh "TypeError ''expected str, bytes or os.PathLike object, not int''"
             "[PStr ''arclang'', PStr ''safety'', PStr ''m.arc'', PStr ''--standard'', PInt 26262]"]
  note t4 = run_command_normalised
         [of "fixed_env (Exited 2 ''out'' ''error: bad model'') (Inr []) (Inr PNone)" _
             "ArcLangCompiler None None None" fresh _
             "[PStr ''arclang'', PStr ''check'', PStr ''m.arc'']"
             "\<lparr>returncode = 2, stdout = ''out'', stderr = ''error: bad model''\<rparr>"]
  have f: "run_command (ArcLangCompiler None None None)
         (fixed_env (Exited 2 ''out'' ''error: bad model'') (Inr []) (Inr PNone))
         [PStr ''arclang'', PStr ''check'', PStr ''m.arc''] fresh =
       (\<lparr>returncode = 2, stdout = ''out'', stderr = ''error: bad model''\<rparr>,
        \<lparr>exec_calls = [[PStr ''arclang'', PStr ''check'', PStr ''m.arc'']], backend_calls = []\<rparr>)"
    using t4 e by (simp add: prod_eq_iff fresh_def)
  from t1 t2 t3 a b c d f e show ?thesis by simp
qed

subsection \<open>Compilation\<close>

lemma scenario_metrics:
  "parse_metrics ''Requirements: 12\<newline>Components: 5\<newline>'' =
     Inr [(''requirements'', 12), (''components'', 5)]"
  by code_simp

lemma run_command_exited:
  assumes "cmd_strings cmd = Inr argv" "subprocess_exec ev argv = Exited rc out err"
    "decode ev out = Inr out_text" "decode ev err = Inr err_text"
  shows "run_command self ev cmd w =
           (\<lparr>returncode = rc, stdout = out_text, stderr = err_text\<rparr>,
            w\<lparr>exec_calls := exec_calls w @ [cmd]\<rparr>)"
  using assms by (simp add: run_command_def run_command_try_def Let_def)

lemma cmd_strings_append:
  "cmd_strings xs = Inr a \<Longrightarrow> cmd_strings ys = Inr b \<Longrightarrow> cmd_strings (xs @ ys) = Inr (a @ b)"
proof (induction xs arbitrary: a rule: cmd_strings.induct)
  case 1
  then show ?case by simp
next
  case (2 s rest)
  then show ?case by (auto split: sum.splits)
qed simp_all

lemma cmd_strings_flag: "\<exists>a. cmd_strings (flag v name) = Inr a"
  by (simp add: flag_def)

lemma compile_cmd_strings:
  "\<exists>argv. cmd_strings ([PStr b, PStr ''build'', PStr p] @ flag vflag ''--validate''
                         @ flag oflag ''--optimize'') = Inr argv"
proof -
  obtain a1 where a1: "cmd_strings (flag vflag ''--validate'') = Inr a1"
    using cmd_strings_flag by blast
  obtain a2 where a2: "cmd_strings (flag oflag ''--optimize'') = Inr a2"
    using cmd_strings_flag by blast
  have "cmd_strings [PStr b, PStr ''build'', PStr p] = Inr [b, ''build'', p]" by simp
  from cmd_strings_append [OF this cmd_strings_append [OF a1 a2]] show ?thesis by blast
qed

text \<open>
  Claim C6, as the code has it. When the process of a compilation exits with code 0 and
  its output decodes to the two lines \<^verbatim>\<open>Requirements: 12\<close> and \<^verbatim>\<open>Components: 5\<close>, the
  outcome has \<open>success\<close> true and the metrics mapping has exactly the two entries
  requirements 12 and components 5. Functions and traces are not in the mapping; the
  report reads them with the default 0.
\<close>

theorem compile_scenario:
  assumes "\<And>argv. subprocess_exec ev argv = Exited 0 out err"
    and "decode ev out = Inr ''Requirements: 12\<newline>Components: 5\<newline>''"
    and "decode ev err = Inr err_text"
  shows "fst (compile self ev model_path vflag oflag w) =
           Inr \<lparr>c_success = True, c_output = ''Requirements: 12\<newline>Components: 5\<newline>'',
                c_errors = err_text,
                c_metrics = [(''requirements'', 12), (''components'', 5)]\<rparr>
         \<and> map_of [(''requirements'', 12 :: int), (''components'', 5)] ''functions'' = None
         \<and> map_of [(''requirements'', 12 :: int), (''components'', 5)] ''traces'' = None
         \<and> metrics_get [(''requirements'', 12), (''components'', 5)] ''functions'' = 0
         \<and> metrics_get [(''requirements'', 12), (''components'', 5)] ''traces'' = 0"
proof -
  obtain argv where "cmd_strings ([PStr (binary_path self), PStr ''build'',
      PStr (path_str ev model_path)] @ flag vflag ''--validate''
      @ flag oflag ''--optimize'') = Inr argv"
    using compile_cmd_strings by blast
  from run_command_exited [OF this assms(1) assms(2) assms(3)]
  have "fst (compile self ev model_path vflag oflag w) =
           Inr \<lparr>c_success = True, c_output = ''Requirements: 12\<newline>Components: 5\<newline>'',
                c_errors = err_text,
                c_metrics = [(''requirements'', 12), (''components'', 5)]\<rparr>"
    by (simp add: compile_def scenario_metrics)
  then show ?thesis by (simp add: metrics_get_def)
qed

text \<open>The scenario with a concrete process.\<close>

theorem compile_scenario_witness:
  "fst (compile (ArcLangCompiler None None None)
          (fixed_env (Exited 0 ''Requirements: 12\<newline>Components: 5\<newline>'' '''') (Inr []) (Inr PNone))
          ''m.arc'' (PBool True) (PBool False) fresh) =
     Inr \<lparr>c_success = True, c_output = ''Requirements: 12\<newline>Components: 5\<newline>'',
          c_errors = '''',
          c_metrics = [(''requirements'', 12), (''components'', 5)]\<rparr>"
proof -
  have a: "\<And>argv. subprocess_exec
      (fixed_env (Exited 0 ''Requirements: 12\<newline>Components: 5\<newline>'' '''') (Inr []) (Inr PNone)) argv
      = Exited 0 ''Requirements: 12\<newline>Components: 5\<newline>'' ''''"
    by (simp add: fixed_env_def)
  have b: "decode (fixed_env (Exited 0 ''Requirements: 12\<newline>Components: 5\<newline>'' '''') (Inr []) (Inr PNone))
      ''Requirements: 12\<newline>Components: 5\<newline>'' = Inr ''Requirements: 12\<newline>Components: 5\<newline>''"
    by (simp add: fixed_env_def)
  have c: "decode (fixed_env (Exited 0 ''Requirements: 12\<newline>Components: 5\<newline>'' '''') (Inr []) (Inr PNone))
      '''' = Inr ''''"
    by (simp add: fixed_env_def)
  from compile_scenario [OF a b c] show ?thesis by blast
qed

text \<open>Claim C6 as stated has the four metrics in the mapping. The mapping of the
  scenario is not the one with four entries: it has no entry for functions.\<close>

theorem compile_scenario_counterexample:
  "fst (compile (ArcLangCompiler None None None)
          (fixed_env (Exited 0 ''Requirements: 12\<newline>Components: 5\<newline>'' '''') (Inr []) (Inr PNone))
          ''m.arc'' (PBool True) (PBool False) fresh) =
     Inr \<lparr>c_success = True, c_output = ''Requirements: 12\<newline>Components: 5\<newline>'',
          c_errors = '''',
          c_metrics = [(''requirements'', 12), (''components'', 5)]\<rparr>
   \<and> [(''requirements'', 12 :: int), (''components'', 5)] \<noteq>
       [(''requirements'', 12), (''components'', 5), (''functions'', 0), (''traces'', 0)]
   \<and> map_of [(''requirements'', 12 :: int), (''components'', 5)] ''functions'' = None"
proof -
  have "parse_metrics ''Requirements: 12\<newline>Components: 5\<newline>'' =
     Inr [(''requirements'', 12), (''components'', 5)]"
    by code_simp
  then show ?thesis
    by (simp add: compile_def run_command_def run_command_try_def fixed_env_def
        ArcLangCompiler_def or_str_def flag_def fresh_def Let_def)
qed

subsection \<open>Coverage\<close>

lemma parse_coverage_loop_absent:
  assumes "\<forall>line \<in> set ls. (contains ''Coverage:'' line \<or> contains ''coverage:'' line) \<longrightarrow>
             (\<exists>e. py_int (rstrip_chars ''%'' (trailing_field line)) = Inl e)"
  shows "parse_coverage_loop ls = 0"
  using assms by (induction ls) auto

lemma parse_coverage_loop_first:
  assumes "\<forall>l \<in> set pre. (contains ''Coverage:'' l \<or> contains ''coverage:'' l) \<longrightarrow>
             (\<exists>e. py_int (rstrip_chars ''%'' (trailing_field l)) = Inl e)"
    and "contains ''Coverage:'' line \<or> contains ''coverage:'' line"
    and "py_int (rstrip_chars ''%'' (trailing_field line)) = Inr v"
  shows "parse_coverage_loop (pre @ line # rest) = v"
  using assms
proof (induction pre)
  case Nil
  then show ?case by auto
next
  case (Cons l pre)
  then show ?case by (cases "py_int (rstrip_chars ''%'' (trailing_field l))") auto
qed

lemma trace_analysis_coverage:
  "t_coverage (fst (trace_analysis self ev model_path show_gaps matrix w)) =
     parse_coverage (stdout (fst (run_command self ev
       ([PStr (binary_path self), PStr ''trace'', PStr (path_str ev model_path),
         PStr ''--validate''] @ flag show_gaps ''--gaps'' @ flag matrix ''--matrix'') w)))"
  by (simp add: trace_analysis_def Let_def split: prod.splits)

lemma trace_report_coverage:
  assumes "trace_report name show_gaps result = Inr text"
  shows "\<exists>before after. text = before @ ''**Coverage**: '' @ str_int (t_coverage result)
            @ ''%\<newline>'' @ after"
proof -
  from assms obtain gaps where
    "text = link_icon @ '' **Traceability Analysis**\<newline>\<newline>''
            @ ''**Model**: '' @ name @ ''\<newline>''
            @ ''**Coverage**: '' @ str_int (t_coverage result) @ ''%\<newline>''
            @ ''**Total Traces**: '' @ str_int (t_total_traces result) @ ''\<newline>\<newline>''
            @ gaps @ coverage_verdict (t_coverage result)"
    by (auto simp: trace_report_def and_then_def split: sum.splits)
  then have "text = (link_icon @ '' **Traceability Analysis**\<newline>\<newline>''
            @ ''**Model**: '' @ name @ ''\<newline>'')
            @ ''**Coverage**: '' @ str_int (t_coverage result) @ ''%\<newline>''
            @ (''**Total Traces**: '' @ str_int (t_total_traces result) @ ''\<newline>\<newline>''
            @ gaps @ coverage_verdict (t_coverage result))"
    by simp
  then show ?thesis by blast
qed

text \<open>
  Claim C9, as the code has it. The coverage is 0 when no line of the output contains
  \<^verbatim>\<open>Coverage:\<close> or \<^verbatim>\<open>coverage:\<close>, and when none of the lines that do carries an integer;
  otherwise it is the integer of the first such line that carries one, whatever its
  sign and size. Trace analysis hands the parsed value on as
  it is, and the report writes it as it is: nothing between the parser and the client
  bounds it by 0 and 100.
\<close>

theorem coverage_as_parsed:
  "((\<forall>line \<in> set (split_on CHR 0x0A output).
        (contains ''Coverage:'' line \<or> contains ''coverage:'' line) \<longrightarrow>
          (\<exists>e. py_int (rstrip_chars ''%'' (trailing_field line)) = Inl e))
      \<longrightarrow> parse_coverage output = 0)
   \<and> (split_on CHR 0x0A output = pre @ line # rest
        \<and> (\<forall>l \<in> set pre. (contains ''Coverage:'' l \<or> contains ''coverage:'' l) \<longrightarrow>
               (\<exists>e. py_int (rstrip_chars ''%'' (trailing_field l)) = Inl e))
        \<and> (contains ''Coverage:'' line \<or> contains ''coverage:'' line)
        \<and> py_int (rstrip_chars ''%'' (trailing_field line)) = Inr v
      \<longrightarrow> parse_coverage output = v)
   \<and> t_coverage (fst (trace_analysis self ev model_path show_gaps matrix w)) =
       parse_coverage (stdout (fst (run_command self ev
         ([PStr (binary_path self), PStr ''trace'', PStr (path_str ev model_path),
           PStr ''--validate''] @ flag show_gaps ''--gaps'' @ flag matrix ''--matrix'') w)))
   \<and> (trace_report name show_gaps result = Inr text
      \<longrightarrow> (\<exists>before after. text = before @ ''**Coverage**: '' @ str_int (t_coverage result)
             @ ''%\<newline>'' @ after))"
  using parse_coverage_loop_absent [of "split_on CHR 0x0A output"]
    parse_coverage_loop_first [of pre line v rest]
    trace_analysis_coverage [of self ev model_path show_gaps matrix w]
    trace_report_coverage [of name show_gaps result "text"]
  unfolding parse_coverage_def by metis

text \<open>An output without a coverage line, and one whose first coverage line carries no
  integer and whose second carries a negative one.\<close>

theorem coverage_as_parsed_witness:
  "split_on CHR 0x0A ''Traces: 3\<newline>done'' = [''Traces: 3'', ''done'']
   \<and> \<not> contains ''Coverage:'' ''Traces: 3'' \<and> \<not> contains ''coverage:'' ''Traces: 3''
   \<and> \<not> contains ''Coverage:'' ''done'' \<and> \<not> contains ''coverage:'' ''done''
   \<and> parse_coverage ''Traces: 3\<newline>done'' = 0
   \<and> split_on CHR 0x0A ''Coverage: n/a\<newline>coverage: -5%'' = [''Coverage: n/a''] @ ''coverage: -5%'' # []
   \<and> py_int (rstrip_chars ''%'' (trailing_field ''Coverage: n/a'')) =
       Inl (ValueError (''invalid literal for int() with base 10: '' @ repr_str ''n/a''))
   \<and> contains ''coverage:'' ''coverage: -5%''
   \<and> py_int (rstrip_chars ''%'' (trailing_field ''coverage: -5%'')) = Inr (- 5)
   \<and> parse_coverage ''Coverage: n/a\<newline>coverage: -5%'' = - 5
   \<and> trace_report ''m.arc'' (PBool False)
        \<lparr>t_coverage = - 5, t_total_traces = 0, t_gaps = []\<rparr> =
      Inr (link_icon @ '' **Traceability Analysis**\<newline>\<newline>**Model**: m.arc\<newline>''
           @ ''**Coverage**: -5%\<newline>**Total Traces**: 0\<newline>\<newline>''
           @ cross_mark @ '' Low traceability coverage - significant gaps detected'')"
proof -
  have l1: "split_on CHR 0x0A ''Traces: 3\<newline>done'' = [''Traces: 3'', ''done'']"
    by code_simp
  have n1: "\<not> contains ''Coverage:'' ''Traces: 3''" "\<not> contains ''coverage:'' ''Traces: 3''"
    "\<not> contains ''Coverage:'' ''done''" "\<not> contains ''coverage:'' ''done''"
    by code_simp+
  have h1: "\<forall>line \<in> set (split_on CHR 0x0A ''Traces: 3\<newline>done'').
        (contains ''Coverage:'' line \<or> contains ''coverage:'' line) \<longrightarrow>
          (\<exists>e. py_int (rstrip_chars ''%'' (trailing_field line)) = Inl e)"
    unfolding l1 using n1 by simp
  have l2: "split_on CHR 0x0A ''Coverage: n/a\<newline>coverage: -5%'' =
      [''Coverage: n/a''] @ ''coverage: -5%'' # []"
    by code_simp
  have p1: "py_int (rstrip_chars ''%'' (trailing_field ''Coverage: n/a'')) =
       Inl (ValueError (''invalid literal for int() with base 10: '' @ repr_str ''n/a''))"
    by code_simp
  have c2: "contains ''coverage:'' ''coverage: -5%''"
    by code_simp
  have p2: "py_int (rstrip_chars ''%'' (trailing_field ''coverage: -5%'')) = Inr (- 5)"
    by code_simp
  have h2: "\<forall>l \<in> set [''Coverage: n/a'']. (contains ''Coverage:'' l \<or> contains ''coverage:'' l) \<longrightarrow>
               (\<exists>e. py_int (rstrip_chars ''%'' (trailing_field l)) = Inl e)"
    using p1 by simp
  have r: "trace_report ''m.arc'' (PBool False)
        \<lparr>t_coverage = - 5, t_total_traces = 0, t_gaps = []\<rparr> =
      Inr (link_icon @ '' **Traceability Analysis**\<newline>\<newline>**Model**: m.arc\<newline>''
           @ ''**Coverage**: -5%\<newline>**Total Traces**: 0\<newline>\<newline>''
           @ cross_mark @ '' Low traceability coverage - significant gaps detected'')"
    by (simp add: trace_report_def gaps_report_def and_then_def coverage_verdict_def str_int_def)
  have a: "parse_coverage ''Traces: 3\<newline>done'' = 0"
    using coverage_as_parsed [of "''Traces: 3\<newline>done''"] h1 by blast
  have b: "parse_coverage ''Coverage: n/a\<newline>coverage: -5%'' = - 5"
    using coverage_as_parsed [of "''Coverage: n/a\<newline>coverage: -5%''" "[''Coverage: n/a'']"
        "''coverage: -5%''" "[]" "- 5"] l2 h2 c2 p2 by blast
  from l1 n1 a l2 p1 c2 p2 b r show ?thesis by blast
qed

text \<open>Claim C9 as stated keeps the delivered coverage between 0 and 100. A process that
  prints \<^verbatim>\<open>Coverage: 150%\<close> gets a report with 150.\<close>

theorem coverage_counterexample:
  "fst (call_tool offline_server
          (fixed_env (Exited 0 ''Coverage: 150%\<newline>'' '''') (Inr []) (Inr PNone))
          ''arclang_trace_analysis'' [(''model_path'', PStr ''m.arc'')] fresh) =
     [TextContent
        (link_icon @ '' **Traceability Analysis**\<newline>\<newline>**Model**: m.arc\<newline>''
         @ ''**Coverage**: 150%\<newline>**Total Traces**: 0\<newline>\<newline>''
         @ warning_sign @ ''  **Gaps Found** (2):\<newline>\<newline>''
         @ check_mark @ '' Good traceability coverage'')]
   \<and> \<not> (150 :: int) \<le> 100"
  by code_simp

subsection \<open>Architecture suggestions\<close>

text \<open>
  Claim C10. With a client configured and an answer of the backend that is no JSON (or
  has no content to read), \<open>suggest_architecture\<close> returns the dictionary with the two
  empty lists, which is not the catalogue of the fallback, and raises nothing.
\<close>

theorem suggest_architecture_bad_json:
  assumes "client self = Client"
    and "messages_create ev (model self) 2048
           (architecture_prompt (join [CHR 0x0A] (map (\<lambda>req. ''- '' @ py_str req) reqs)) domain)
         = Inr content"
    and "first_text content = Inl e1 \<or>
         (\<exists>t e2. first_text content = Inr t \<and> json_loads ev t = Inl e2)"
  shows "fst (suggest_architecture self ev (PList reqs) domain w) =
           Inr (PDict [(''components'', PList []), (''patterns'', PList [])])
         \<and> PDict [(''components'', PList []), (''patterns'', PList [])] \<noteq> fallback_suggestions"
  using assms
  by (auto simp: suggest_architecture_def create_message_def empty_suggestions_def
      fallback_suggestions_def Let_def)

text \<open>A backend that answers in prose, and a parser that accepts nothing.\<close>

theorem suggest_architecture_bad_json_witness:
  "client (srv_generator online_server) = Client
   \<and> first_text [''Here are my suggestions.''] = Inr ''Here are my suggestions.''
   \<and> fst (suggest_architecture (srv_generator online_server)
            (fixed_env (Raised TimeoutError) (Inr [''Here are my suggestions.''])
               (Inl (ValueError ''Expecting value: line 1 column 1 (char 0)'')))
            (PList [PStr ''brake within 100 ms'']) (PStr ''automotive'') fresh) =
       Inr (PDict [(''components'', PList []), (''patterns'', PList [])])"
proof -
  have c: "client (srv_generator online_server) = Client"
    by (simp add: online_server_def AIGenerator_def dict_get_def)
  have f: "first_text [''Here are my suggestions.''] = Inr ''Here are my suggestions.''"
    by code_simp
  have m: "messages_create (fixed_env (Raised TimeoutError) (Inr [''Here are my suggestions.''])
               (Inl (ValueError ''Expecting value: line 1 column 1 (char 0)'')))
             (model (srv_generator online_server)) 2048
             (architecture_prompt (join [CHR 0x0A]
                (map (\<lambda>req. ''- '' @ py_str req) [PStr ''brake within 100 ms'']))
                (PStr ''automotive''))
           = Inr [''Here are my suggestions.'']"
    by (simp add: fixed_env_def)
  have j: "first_text [''Here are my suggestions.''] = Inl (IndexError []) \<or>
         (\<exists>t e2. first_text [''Here are my suggestions.''] = Inr t \<and>
            json_loads (fixed_env (Raised TimeoutError) (Inr [''Here are my suggestions.''])
               (Inl (ValueError ''Expecting value: line 1 column 1 (char 0)''))) t = Inl e2)"
    using f by (simp add: fixed_env_def)
  from suggest_architecture_bad_json [OF c m j] c f show ?thesis by blast
qed

subsection \<open>Generation facade\<close>

text \<open>
  Claim C2, as the code has it. With no backend configured (the client is \<^verbatim>\<open>None\<close>) each of
  the three generation calls returns its deterministic block or catalogue, fails on no
  text, and calls nothing: the trace is unchanged. With a client configured, a failure
  of the backend's call is the outcome of the generation call itself: no fallback is
  taken, and the exception leaves the facade after one recorded request.
\<close>

theorem generation_fallback_or_raise:
  "(client self = ClientNone \<longrightarrow>
      generate_requirement self ev (PStr description) safety_level priority w =
        (Inr (requirement_template (generate_requirement_id description) (PStr description)
                safety_level priority), w)
      \<and> generate_component self ev (PStr description) component_type safety_level w =
        (Inr (component_template (generate_component_id description) (PStr description)
                component_type safety_level), w)
      \<and> suggest_architecture self ev (PList reqs) domain w = (Inr fallback_suggestions, w))
   \<and> (client self = Client
        \<and> messages_create ev (model self) 1024
             (requirement_prompt (PStr description) safety_level priority) = Inl e
      \<longrightarrow> generate_requirement self ev (PStr description) safety_level priority w =
            (Inl e, w\<lparr>backend_calls := backend_calls w
               @ [requirement_prompt (PStr description) safety_level priority]\<rparr>))
   \<and> (client self = Client
        \<and> messages_create ev (model self) 2048
             (component_prompt (PStr description) component_type safety_level) = Inl e
      \<longrightarrow> generate_component self ev (PStr description) component_type safety_level w =
            (Inl e, w\<lparr>backend_calls := backend_calls w
               @ [component_prompt (PStr description) component_type safety_level]\<rparr>))
   \<and> (client self = Client
        \<and> messages_create ev (model self) 2048
             (architecture_prompt (join [CHR 0x0A] (map (\<lambda>req. ''- '' @ py_str req) reqs)) domain)
           = Inl e
      \<longrightarrow> suggest_architecture self ev (PList reqs) domain w =
            (Inl e, w\<lparr>backend_calls := backend_calls w
               @ [architecture_prompt
                    (join [CHR 0x0A] (map (\<lambda>req. ''- '' @ py_str req) reqs)) domain]\<rparr>))"
  by (simp add: generate_requirement_def generate_component_def suggest_architecture_def
      create_message_def str_method_def Let_def)

text \<open>A server without an API key, and one with a key whose backend refuses the
  connection, for each of the three calls.\<close>

theorem generation_fallback_or_raise_witness:
  "client (srv_generator offline_server) = ClientNone
   \<and> fst (generate_requirement (srv_generator offline_server)
            (fixed_env (Raised TimeoutError) (Inl (BackendError ''Connection error.'')) (Inr PNone))
            (PStr ''stop'') PNone (PStr ''High'') fresh) =
       Inr (requirement_template ''REQ-S-001'' (PStr ''stop'') PNone (PStr ''High''))
   \<and> fst (generate_component (srv_generator offline_server)
            (fixed_env (Raised TimeoutError) (Inl (BackendError ''Connection error.'')) (Inr PNone))
            (PStr ''stop'') (PStr ''Logical'') PNone fresh) =
       Inr (component_template ''LC-S-001'' (PStr ''stop'') (PStr ''Logical'') PNone)
   \<and> suggest_architecture (srv_generator offline_server)
            (fixed_env (Raised TimeoutError) (Inl (BackendError ''Connection error.'')) (Inr PNone))
            (PList [PStr ''stop'']) (PStr ''automotive'') fresh =
       (Inr fallback_suggestions, fresh)
   \<and> client (srv_generator online_server) = Client
   \<and> fst (generate_requirement (srv_generator online_server)
            (fixed_env (Raised TimeoutError) (Inl (BackendError ''Connection error.'')) (Inr PNone))
            (PStr ''stop'') PNone (PStr ''High'') fresh) =
       Inl (BackendError ''Connection error.'')
   \<and> fst (generate_component (srv_generator online_server)
            (fixed_env (Raised TimeoutError) (Inl (BackendError ''Connection error.'')) (Inr PNone))
            (PStr ''stop'') (PStr ''Logical'') PNone fresh) =
       Inl (BackendError ''Connection error.'')
   \<and> fst (suggest_architecture (srv_generator online_server)
            (fixed_env (Raised TimeoutError) (Inl (BackendError ''Connection error.'')) (Inr PNone))
            (PList [PStr ''stop'']) (PStr ''automotive'') fresh) =
       Inl (BackendError ''Connection error.'')"
proof -
  have a: "client (srv_generator offline_server) = ClientNone"
    by (simp add: offline_server_def AIGenerator_def dict_get_def)
  have b: "client (srv_generator online_server) = Client"
    by (simp add: online_server_def AIGenerator_def dict_get_def)
  have i: "generate_requirement_id ''stop'' = ''REQ-S-001''"
    by code_simp
  have j: "generate_component_id ''stop'' = ''LC-S-001''"
    by code_simp
  have m: "\<And>n p. messages_create
      (fixed_env (Raised TimeoutError) (Inl (BackendError ''Connection error.'')) (Inr PNone))
      (model (srv_generator online_server)) n p
      = Inl (BackendError ''Connection error.'')"
    by (simp add: fixed_env_def)
  from generation_fallback_or_raise
         [of "srv_generator offline_server"
             "fixed_env (Raised TimeoutError) (Inl (BackendError ''Connection error.'')) (Inr PNone)"
             "''stop''" PNone "PStr ''High''" fresh "PStr ''Logical''" "[PStr ''stop'']"
             "PStr ''automotive''"]
       generation_fallback_or_raise
         [of "srv_generator online_server"
             "fixed_env (Raised TimeoutError) (Inl (BackendError ''Connection error.'')) (Inr PNone)"
             "''stop''" PNone "PStr ''High''" fresh "PStr ''Logical''" "[PStr ''stop'']"
             "PStr ''automotive''" "BackendError ''Connection error.''"]
       a b i j m
  show ?thesis by simp
qed

text \<open>Claim C2 as stated has the facade fall back when the backend's call fails. The
  failure comes out of \<open>generate_requirement\<close> instead, and the dispatcher shows it.\<close>

theorem generation_backend_failure_counterexample:
  "fst (generate_requirement (srv_generator online_server)
          (fixed_env (Raised TimeoutError) (Inl (BackendError ''Connection error.'')) (Inr PNone))
          (PStr ''stop'') PNone (PStr ''High'') fresh) =
     Inl (BackendError ''Connection error.'')
   \<and> fst (call_tool online_server
          (fixed_env (Raised TimeoutError) (Inl (BackendError ''Connection error.'')) (Inr PNone))
          ''arclang_generate_requirement'' [(''description'', PStr ''stop'')] fresh) =
     [TextContent ''Error: Connection error.'']"
  by code_simp

text \<open>
  Claim C8, as the code has it. The description of the scenario has the first two words
  \<^verbatim>\<open>brake\<close> and \<^verbatim>\<open>pressure\<close>; the identifier is \<^verbatim>\<open>REQ-BP-001\<close>, and the block of the fallback
  opens with it.
\<close>

theorem brake_requirement_id:
  "generate_requirement_id ''brake pressure must not exceed limit'' = ''REQ-BP-001''
   \<and> generate_requirement (AIGenerator [] None) ev
        (PStr ''brake pressure must not exceed limit'') safety_level priority w =
      (Inr (''requirement '' @ [CHR 0x22] @ ''REQ-BP-001''
            @ requirement_body (PStr ''brake pressure must not exceed limit'')
                safety_level priority), w)"
proof -
  have i: "generate_requirement_id ''brake pressure must not exceed limit'' = ''REQ-BP-001''"
    by code_simp
  have c: "client (AIGenerator [] None) = ClientNone"
    by (simp add: AIGenerator_def dict_get_def)
  show ?thesis
    by (simp add: generate_requirement_def c str_method_def i requirement_template_def Let_def)
qed

text \<open>Claim C8 as stated names \<^verbatim>\<open>REQ-BM-001\<close>. That is not the identifier, and the block
  does not contain it.\<close>

theorem brake_requirement_id_counterexample:
  "generate_requirement_id ''brake pressure must not exceed limit'' \<noteq> ''REQ-BM-001''
   \<and> (case fst (generate_requirement (AIGenerator [] None)
                  (fixed_env (Raised TimeoutError) (Inr []) (Inr PNone))
                  (PStr ''brake pressure must not exceed limit'') PNone (PStr ''High'') fresh) of
         Inl e \<Rightarrow> False
       | Inr block \<Rightarrow> \<not> contains ''REQ-BM-001'' block \<and> contains ''REQ-BP-001'' block)"
  by code_simp

subsection \<open>Generated artifacts\<close>

lemma initials_map:
  "initials d = map (\<lambda>w. upper_char (hd w)) (filter (\<lambda>w. w \<noteq> []) (take 2 (split_ws d)))"
  by (simp add: initials_def upper_def Let_def concat_map_singleton)

lemma initials_length: "length (initials d) \<le> 2"
proof -
  have "length (filter (\<lambda>w. w \<noteq> []) (take 2 (split_ws d))) \<le> length (take 2 (split_ws d))"
    by (rule length_filter_le)
  then show ?thesis by (simp add: initials_map)
qed

lemma short_list_cases:
  assumes "length (p :: 'a list) \<le> 2"
  obtains "p = []" | a where "p = [a]" | a b where "p = [a, b]"
proof (cases p)
  case Nil
  then show ?thesis using that by blast
next
  case (Cons a q)
  note pq = this
  show ?thesis
  proof (cases q)
    case Nil
    with pq that show ?thesis by blast
  next
    case (Cons b r)
    with pq assms have "r = []" by simp
    with pq Cons that show ?thesis by blast
  qed
qed

lemma count_occ_header:
  assumes "length p \<le> 2"
  shows "count_occ (''REQ-'' @ p @ ''-001'')
           (''requirement '' @ [CHR 0x22] @ (''REQ-'' @ p @ ''-001'') @ body) =
         1 + count_occ (''REQ-'' @ p @ ''-001'') body"
  using assms
proof (cases p rule: short_list_cases)
  case 1
  then show ?thesis by simp
next
  case (2 a)
  then show ?thesis by simp
next
  case (3 a b)
  then show ?thesis by simp
qed

text \<open>
  Claim C7, as the code has it. A generated artifact is the text alone; no generation
  mode travels with it. With no backend configured, for every description,
  \<open>generate_requirement\<close> returns a block that is not empty, calls nothing, and opens
  with the keyword and the synthesized identifier in quotes. The identifier occurs
  once there; the rest of the block holds the description, the priority and the safety
  level as they were given, so the identifier occurs in the block once more for every
  time it occurs in that rest.
\<close>

theorem fallback_requirement_block:
  assumes "client self = ClientNone"
  shows "\<exists>block.
           generate_requirement self ev (PStr description) safety_level priority w = (Inr block, w)
           \<and> block \<noteq> []
           \<and> block = ''requirement '' @ [CHR 0x22] @ generate_requirement_id description
                       @ requirement_body (PStr description) safety_level priority
           \<and> count_occ (generate_requirement_id description) block =
               1 + count_occ (generate_requirement_id description)
                     (requirement_body (PStr description) safety_level priority)"
proof -
  have g: "generate_requirement self ev (PStr description) safety_level priority w =
      (Inr (''requirement '' @ [CHR 0x22] @ generate_requirement_id description
            @ requirement_body (PStr description) safety_level priority), w)"
    using assms
    by (simp add: generate_requirement_def str_method_def requirement_template_def Let_def)
  have c: "count_occ (generate_requirement_id description)
      (''requirement '' @ [CHR 0x22] @ generate_requirement_id description
         @ requirement_body (PStr description) safety_level priority) =
      1 + count_occ (generate_requirement_id description)
            (requirement_body (PStr description) safety_level priority)"
    unfolding generate_requirement_id_def
    by (rule count_occ_header [OF initials_length])
  from g c show ?thesis by simp
qed

text \<open>The empty description, with the identifier \<^verbatim>\<open>REQ--001\<close> occurring exactly once.\<close>

theorem fallback_requirement_block_witness:
  "client (srv_generator offline_server) = ClientNone
   \<and> generate_requirement_id [] = ''REQ--001''
   \<and> count_occ ''REQ--001'' (requirement_body (PStr []) PNone (PStr ''High'')) = 0
   \<and> (\<exists>block.
         generate_requirement (srv_generator offline_server)
           (fixed_env (Raised TimeoutError) (Inr []) (Inr PNone))
           (PStr []) PNone (PStr ''High'') fresh = (Inr block, fresh)
         \<and> block \<noteq> []
         \<and> count_occ ''REQ--001'' block = 1)"
proof -
  have a: "client (srv_generator offline_server) = ClientNone"
    by (simp add: offline_server_def AIGenerator_def dict_get_def)
  have i: "generate_requirement_id [] = ''REQ--001''"
    by code_simp
  have z: "count_occ ''REQ--001'' (requirement_body (PStr []) PNone (PStr ''High'')) = 0"
    by code_simp
  from fallback_requirement_block [OF a, of _ "[]" PNone "PStr ''High''" fresh]
  obtain block where
    "generate_requirement (srv_generator offline_server)
           (fixed_env (Raised TimeoutError) (Inr []) (Inr PNone))
           (PStr []) PNone (PStr ''High'') fresh = (Inr block, fresh)"
    "block \<noteq> []"
    "count_occ (generate_requirement_id []) block =
       1 + count_occ (generate_requirement_id [])
             (requirement_body (PStr []) PNone (PStr ''High''))"
    by blast
  with a i z show ?thesis by auto
qed

text \<open>Claim C7 as stated has a mode on every artifact and the identifier exactly once in
  every fallback block. A backend that answers with the text of the template yields
  the very artifact of the fallback, so the artifact does not tell the two apart; and
  for the description \<^verbatim>\<open>REQ-RR-001 rr\<close> the identifier \<^verbatim>\<open>REQ-RR-001\<close> is in the block
  twice.\<close>

theorem artifact_mode_counterexample:
  "fst (generate_requirement (srv_generator online_server)
          (fixed_env (Raised TimeoutError)
             (Inr [requirement_template ''REQ-S-001'' (PStr ''stop'') PNone (PStr ''High'')])
             (Inr PNone))
          (PStr ''stop'') PNone (PStr ''High'') fresh) =
   fst (generate_requirement (srv_generator offline_server)
          (fixed_env (Raised TimeoutError)
             (Inr [requirement_template ''REQ-S-001'' (PStr ''stop'') PNone (PStr ''High'')])
             (Inr PNone))
          (PStr ''stop'') PNone (PStr ''High'') fresh)
   \<and> client (srv_generator online_server) = Client
   \<and> client (srv_generator offline_server) = ClientNone
   \<and> generate_requirement_id ''REQ-RR-001 rr'' = ''REQ-RR-001''
   \<and> count_occ ''REQ-RR-001''
         (requirement_template ''REQ-RR-001'' (PStr ''REQ-RR-001 rr'') PNone (PStr ''High'')) = 2"
  by code_simp

subsection \<open>Tool dispatcher\<close>

text \<open>
  Claim C4. Every call of the dispatcher returns a list of exactly one text payload.
  An exception that comes out of the routed tool group is shown as \<^verbatim>\<open>Error: \<close> followed
  by its text; a name that no branch of the routing takes is shown as
  \<^verbatim>\<open>Error: Unknown tool: \<close> followed by the name, and nothing is called for it; a result is
  shown as it is.
\<close>

theorem call_tool_single_payload:
  "(\<exists>payload. fst (call_tool self ev name arguments w) = [TextContent payload])
   \<and> (fst (route self ev name arguments w) = Inl e \<longrightarrow>
        fst (call_tool self ev name arguments w) = [TextContent (''Error: '' @ str_error e)])
   \<and> (fst (route self ev name arguments w) = Inr result \<longrightarrow>
        fst (call_tool self ev name arguments w) = [TextContent result])
   \<and> (\<not> startswith name ''arclang_compile''
        \<and> name \<notin> set [''arclang_validate'', ''arclang_trace_analysis'',
                        ''arclang_export_diagram'', ''arclang_info'']
        \<and> \<not> startswith name ''arclang_generate'' \<and> name \<noteq> ''arclang_suggest_architecture''
        \<and> \<not> startswith name ''arclang_safety'' \<and> name \<noteq> ''arclang_hazard_analysis''
        \<and> \<not> startswith name ''arclang_git'' \<and> \<not> startswith name ''arclang_plm'' \<longrightarrow>
        call_tool self ev name arguments w =
          ([TextContent (''Error: Unknown tool: '' @ name)], w))"
proof -
  obtain r w' where r: "route self ev name arguments w = (r, w')"
    by (cases "route self ev name arguments w")
  have a: "\<exists>payload. fst (call_tool self ev name arguments w) = [TextContent payload]"
    using r by (cases r) (simp_all add: call_tool_def)
  have b: "fst (call_tool self ev name arguments w) = [TextContent (''Error: '' @ str_error e)]"
    if "fst (route self ev name arguments w) = Inl e"
    using r that by (simp add: call_tool_def)
  have c: "fst (call_tool self ev name arguments w) = [TextContent result]"
    if "fst (route self ev name arguments w) = Inr result"
    using r that by (simp add: call_tool_def)
  have d: "call_tool self ev name arguments w =
          ([TextContent (''Error: Unknown tool: '' @ name)], w)"
    if "\<not> startswith name ''arclang_compile''
        \<and> name \<notin> set [''arclang_validate'', ''arclang_trace_analysis'',
                        ''arclang_export_diagram'', ''arclang_info'']
        \<and> \<not> startswith name ''arclang_generate'' \<and> name \<noteq> ''arclang_suggest_architecture''
        \<and> \<not> startswith name ''arclang_safety'' \<and> name \<noteq> ''arclang_hazard_analysis''
        \<and> \<not> startswith name ''arclang_git'' \<and> \<not> startswith name ''arclang_plm''"
    using that by (simp add: call_tool_def route_def)
  from a b c d show ?thesis by blast
qed

text \<open>A name outside the routing, a compilation whose output makes the metrics parser
  raise inside the compiler facade, and a compilation that fails with exit code 1.\<close>

theorem call_tool_single_payload_witness:
  "call_tool offline_server (fixed_env (Raised TimeoutError) (Inr []) (Inr PNone))
     ''arclang_format'' [] fresh =
     ([TextContent ''Error: Unknown tool: arclang_format''], fresh)
   \<and> fst (route offline_server
            (fixed_env (Exited 0 ''Requirements: many'' '''') (Inr []) (Inr PNone))
            ''arclang_compile'' [(''model_path'', PStr ''m.arc'')] fresh) =
       Inl (ValueError (''invalid literal for int() with base 10: '' @ repr_str ''many''))
   \<and> fst (call_tool offline_server
            (fixed_env (Exited 0 ''Requirements: many'' '''') (Inr []) (Inr PNone))
            ''arclang_compile'' [(''model_path'', PStr ''m.arc'')] fresh) =
       [TextContent (''Error: invalid literal for int() with base 10: '' @ repr_str ''many'')]
   \<and> fst (route offline_server
            (fixed_env (Exited 1 '''' ''error: missing trace for REQ-001'') (Inr []) (Inr PNone))
            ''arclang_compile'' [(''model_path'', PStr ''m.arc'')] fresh) =
       Inr (cross_mark @ '' Compilation failed\<newline>\<newline>**Errors**:\<newline>error: missing trace for REQ-001'')
   \<and> fst (call_tool offline_server
            (fixed_env (Exited 1 '''' ''error: missing trace for REQ-001'') (Inr []) (Inr PNone))
            ''arclang_compile'' [(''model_path'', PStr ''m.arc'')] fresh) =
       [TextContent (cross_mark
          @ '' Compilation failed\<newline>\<newline>**Errors**:\<newline>error: missing trace for REQ-001'')]"
proof -
  have n: "\<not> startswith ''arclang_format'' ''arclang_compile''
        \<and> ''arclang_format'' \<notin> set [''arclang_validate'', ''arclang_trace_analysis'',
                        ''arclang_export_diagram'', ''arclang_info'']
        \<and> \<not> startswith ''arclang_format'' ''arclang_generate''
        \<and> ''arclang_format'' \<noteq> ''arclang_suggest_architecture''
        \<and> \<not> startswith ''arclang_format'' ''arclang_safety''
        \<and> ''arclang_format'' \<noteq> ''arclang_hazard_analysis''
        \<and> \<not> startswith ''arclang_format'' ''arclang_git''
        \<and> \<not> startswith ''arclang_format'' ''arclang_plm''"
    by (simp add: startswith_def)
  have r: "fst (route offline_server
            (fixed_env (Exited 0 ''Requirements: many'' '''') (Inr []) (Inr PNone))
            ''arclang_compile'' [(''model_path'', PStr ''m.arc'')] fresh) =
       Inl (ValueError (''invalid literal for int() with base 10: '' @ repr_str ''many''))"
    by code_simp
  have s: "fst (route offline_server
            (fixed_env (Exited 1 '''' ''error: missing trace for REQ-001'') (Inr []) (Inr PNone))
            ''arclang_compile'' [(''model_path'', PStr ''m.arc'')] fresh) =
       Inr (cross_mark @ '' Compilation failed\<newline>\<newline>**Errors**:\<newline>error: missing trace for REQ-001'')"
    by code_simp
  from call_tool_single_payload
         [of offline_server "fixed_env (Raised TimeoutError) (Inr []) (Inr PNone)"
             "''arclang_format''" "[]" fresh]
       call_tool_single_payload
         [of offline_server "fixed_env (Exited 0 ''Requirements: many'' '''') (Inr []) (Inr PNone)"
             "''arclang_compile''" "[(''model_path'', PStr ''m.arc'')]" fresh
             "ValueError (''invalid literal for int() with base 10: '' @ repr_str ''many'')"]
       call_tool_single_payload
         [of offline_server
             "fixed_env (Exited 1 '''' ''error: missing trace for REQ-001'') (Inr []) (Inr PNone)"
             "''arclang_compile''" "[(''model_path'', PStr ''m.arc'')]" fresh _
             "cross_mark @ '' Compilation failed\<newline>\<newline>**Errors**:\<newline>error: missing trace for REQ-001''"]
       n r s
  show ?thesis by simp
qed

subsection \<open>Missing arguments\<close>

lemma missing_key: "map_of args k = None \<Longrightarrow> dict_getitem args k = Inl (KeyError k)"
  by (simp add: dict_getitem_def)

lemma present_key: "map_of args k = Some v \<Longrightarrow> dict_getitem args k = Inr v"
  by (simp add: dict_getitem_def)

lemma route_compile:
  "route self ev ''arclang_compile'' args w = core_compile (core_tools_of self) ev args w"
  by (simp add: route_def startswith_def core_execute_def)

lemma route_validate:
  "route self ev ''arclang_validate'' args w = core_validate (core_tools_of self) ev args w"
  by (simp add: route_def startswith_def core_execute_def)

lemma route_trace_analysis:
  "route self ev ''arclang_trace_analysis'' args w =
     core_trace_analysis (core_tools_of self) ev args w"
  by (simp add: route_def startswith_def core_execute_def)

lemma route_export_diagram:
  "route self ev ''arclang_export_diagram'' args w =
     core_export_diagram (core_tools_of self) ev args w"
  by (simp add: route_def startswith_def core_execute_def)

lemma route_info:
  "route self ev ''arclang_info'' args w = core_info (core_tools_of self) ev args w"
  by (simp add: route_def startswith_def core_execute_def)

lemma route_generate_requirement:
  "route self ev ''arclang_generate_requirement'' args w =
     gen_generate_requirement (srv_generator self) ev args w"
  by (simp add: route_def startswith_def generation_execute_def)

lemma route_generate_component:
  "route self ev ''arclang_generate_component'' args w =
     gen_generate_component (srv_generator self) ev args w"
  by (simp add: route_def startswith_def generation_execute_def)

lemma route_suggest_architecture:
  "route self ev ''arclang_suggest_architecture'' args w =
     gen_suggest_architecture (srv_generator self) ev args w"
  by (simp add: route_def startswith_def generation_execute_def)

lemma route_safety_check:
  "route self ev ''arclang_safety_check'' args w =
     tool_safety_check (srv_compiler self) ev args w"
  by (simp add: route_def startswith_def safety_execute_def)

lemma route_hazard_analysis:
  "route self ev ''arclang_hazard_analysis'' args w =
     tool_hazard_analysis (srv_compiler self) ev args w"
  by (simp add: route_def startswith_def safety_execute_def)

lemma route_git_merge:
  "route self ev ''arclang_git_merge'' args w = git_merge (srv_compiler self) ev args w"
  by (simp add: route_def startswith_def integration_execute_def)

lemma first_missing_single:
  assumes "filter (\<lambda>k. map_of args k = None) [f] = g # others"
  shows "g = f \<and> map_of args f = None"
  using assms by (auto split: if_splits)

lemma compile_missing:
  "map_of args ''model_path'' = None \<Longrightarrow>
   route self ev ''arclang_compile'' args w = (Inl (KeyError ''model_path''), w)"
  by (simp add: route_compile core_compile_def and_then_def missing_key)

lemma validate_missing:
  "map_of args ''model_path'' = None \<Longrightarrow>
   route self ev ''arclang_validate'' args w = (Inl (KeyError ''model_path''), w)"
  by (simp add: route_validate core_validate_def and_then_def missing_key)

lemma trace_analysis_missing:
  "map_of args ''model_path'' = None \<Longrightarrow>
   route self ev ''arclang_trace_analysis'' args w = (Inl (KeyError ''model_path''), w)"
  by (simp add: route_trace_analysis core_trace_analysis_def and_then_def missing_key)

lemma export_diagram_missing:
  "map_of args ''model_path'' = None \<Longrightarrow>
   route self ev ''arclang_export_diagram'' args w = (Inl (KeyError ''model_path''), w)"
  by (simp add: route_export_diagram core_export_diagram_def and_then_def missing_key)

lemma info_missing:
  "map_of args ''model_path'' = None \<Longrightarrow>
   route self ev ''arclang_info'' args w = (Inl (KeyError ''model_path''), w)"
  by (simp add: route_info core_info_def and_then_def missing_key)

lemma generate_requirement_missing:
  "map_of args ''description'' = None \<Longrightarrow>
   route self ev ''arclang_generate_requirement'' args w = (Inl (KeyError ''description''), w)"
  by (simp add: route_generate_requirement gen_generate_requirement_def missing_key)

lemma generate_component_missing:
  "map_of args ''description'' = None \<Longrightarrow>
   route self ev ''arclang_generate_component'' args w = (Inl (KeyError ''description''), w)"
  by (simp add: route_generate_component gen_generate_component_def missing_key)

lemma suggest_architecture_missing:
  "map_of args ''requirements'' = None \<Longrightarrow>
   route self ev ''arclang_suggest_architecture'' args w = (Inl (KeyError ''requirements''), w)"
  by (simp add: route_suggest_architecture gen_suggest_architecture_def missing_key)

lemma hazard_analysis_missing:
  "map_of args ''model_path'' = None \<Longrightarrow>
   route self ev ''arclang_hazard_analysis'' args w = (Inl (KeyError ''model_path''), w)"
  by (simp add: route_hazard_analysis tool_hazard_analysis_def and_then_def missing_key)

text \<open>A path argument: a missing key, a string, or a value that \<^verbatim>\<open>Path\<close> refuses.\<close>

lemma path_argument:
  obtains (missing) "map_of args k = None"
      "and_then (dict_getitem args k) (make_path ev) = Inl (KeyError k)"
    | (string) s where "map_of args k = Some (PStr s)"
      "and_then (dict_getitem args k) (make_path ev) = Inr (Path ev s)"
    | (refused) v e where "map_of args k = Some v" "\<forall>s. v \<noteq> PStr s"
      "and_then (dict_getitem args k) (make_path ev) = Inl e"
proof (cases "map_of args k")
  case None
  then show ?thesis using missing by (simp add: and_then_def missing_key)
next
  case (Some v)
  show ?thesis
  proof (cases v)
    case (PStr s)
    with Some show ?thesis using string by (simp add: and_then_def present_key make_path_def)
  qed (use Some refused in \<open>simp_all add: and_then_def present_key make_path_def\<close>)
qed

lemma safety_check_missing:
  assumes "filter (\<lambda>k. map_of args k = None) [''model_path'', ''standard''] = g # others"
  shows "\<exists>e. route self ev ''arclang_safety_check'' args w = (Inl e, w)
           \<and> (typed args [''model_path'', ''standard''] \<longrightarrow> e = KeyError g)"
proof -
  show ?thesis
  proof (cases rule: path_argument [where args = args and k = "''model_path''" and ev = ev])
    case missing
    with assms have "g = ''model_path''" by simp
    with missing(2) show ?thesis
      by (simp add: route_safety_check tool_safety_check_def)
  next
    case (string s)
    with assms have "g = ''standard''" "map_of args ''standard'' = None"
      by (auto split: if_splits)
    with string(2) show ?thesis
      by (simp add: route_safety_check tool_safety_check_def missing_key)
  next
    case (refused v e)
    then have "\<not> typed args [''model_path'', ''standard'']"
      by (cases v) (simp_all add: typed_def)
    with refused(3) show ?thesis
      by (simp add: route_safety_check tool_safety_check_def)
  qed
qed

lemma git_merge_missing:
  assumes "filter (\<lambda>k. map_of args k = None) [''base_path'', ''ours_path'', ''theirs_path'']
             = g # others"
  shows "\<exists>e. route self ev ''arclang_git_merge'' args w = (Inl e, w)
           \<and> (typed args [''base_path'', ''ours_path'', ''theirs_path''] \<longrightarrow> e = KeyError g)"
proof (cases rule: path_argument [where args = args and k = "''base_path''" and ev = ev])
  case missing
  with assms have "g = ''base_path''" by simp
  with missing(2) show ?thesis by (simp add: route_git_merge git_merge_def)
next
  case (refused v e)
  then have "\<not> typed args [''base_path'', ''ours_path'', ''theirs_path'']"
    by (cases v) (simp_all add: typed_def)
  with refused(3) show ?thesis by (simp add: route_git_merge git_merge_def)
next
  case base: (string s)
  show ?thesis
  proof (cases rule: path_argument [where args = args and k = "''ours_path''" and ev = ev])
    case missing
    with assms base(1) have "g = ''ours_path''" by simp
    with base(2) missing(2) show ?thesis by (simp add: route_git_merge git_merge_def)
  next
    case (refused v e)
    then have "\<not> typed args [''base_path'', ''ours_path'', ''theirs_path'']"
      by (cases v) (simp_all add: typed_def)
    with base(2) refused(3) show ?thesis by (simp add: route_git_merge git_merge_def)
  next
    case ours: (string t)
    show ?thesis
    proof (cases rule: path_argument [where args = args and k = "''theirs_path''" and ev = ev])
      case missing
      with assms base(1) ours(1) have "g = ''theirs_path''" by simp
      with base(2) ours(2) missing(2) show ?thesis by (simp add: route_git_merge git_merge_def)
    next
      case (refused v e)
      then have "\<not> typed args [''base_path'', ''ours_path'', ''theirs_path'']"
        by (cases v) (simp_all add: typed_def)
      with base(2) ours(2) refused(3) show ?thesis by (simp add: route_git_merge git_merge_def)
    next
      case (string u)
      with assms base(1) ours(1) show ?thesis by simp
    qed
  qed
qed

lemma single_required:
  assumes "map_of args f = None \<Longrightarrow> route self ev name args w = (Inl (KeyError f), w)"
    and "filter (\<lambda>k. map_of args k = None) [f] = g # others"
  shows "\<exists>e. route self ev name args w = (Inl e, w) \<and> (typed args [f] \<longrightarrow> e = KeyError g)"
  using first_missing_single [OF assms(2)] assms(1) by simp

lemma missing_argument_route:
  assumes "(name, required) \<in> set tool_catalogue"
    and "filter (\<lambda>k. map_of args k = None) required = g # others"
  shows "\<exists>e. route self ev name args w = (Inl e, w) \<and> (typed args required \<longrightarrow> e = KeyError g)"
proof -
  define Q where "Q = (\<lambda>name required. \<forall>g others.
      filter (\<lambda>k. map_of args k = None) required = g # others \<longrightarrow>
      (\<exists>e. route self ev name args w = (Inl e, w) \<and> (typed args required \<longrightarrow> e = KeyError g)))"
  have q1: "Q ''arclang_compile'' [''model_path'']"
    unfolding Q_def by (intro allI impI) (rule single_required [OF compile_missing])
  have q2: "Q ''arclang_validate'' [''model_path'']"
    unfolding Q_def by (intro allI impI) (rule single_required [OF validate_missing])
  have q3: "Q ''arclang_trace_analysis'' [''model_path'']"
    unfolding Q_def by (intro allI impI) (rule single_required [OF trace_analysis_missing])
  have q4: "Q ''arclang_export_diagram'' [''model_path'']"
    unfolding Q_def by (intro allI impI) (rule single_required [OF export_diagram_missing])
  have q5: "Q ''arclang_info'' [''model_path'']"
    unfolding Q_def by (intro allI impI) (rule single_required [OF info_missing])
  have q6: "Q ''arclang_generate_requirement'' [''description'']"
    unfolding Q_def by (intro allI impI) (rule single_required [OF generate_requirement_missing])
  have q7: "Q ''arclang_generate_component'' [''description'']"
    unfolding Q_def by (intro allI impI) (rule single_required [OF generate_component_missing])
  have q8: "Q ''arclang_suggest_architecture'' [''requirements'']"
    unfolding Q_def by (intro allI impI) (rule single_required [OF suggest_architecture_missing])
  have q9: "Q ''arclang_safety_check'' [''model_path'', ''standard'']"
    unfolding Q_def by (intro allI impI) (rule safety_check_missing)
  have q10: "Q ''arclang_hazard_analysis'' [''model_path'']"
    unfolding Q_def by (intro allI impI) (rule single_required [OF hazard_analysis_missing])
  have q11: "Q ''arclang_git_merge'' [''base_path'', ''ours_path'', ''theirs_path'']"
    unfolding Q_def by (intro allI impI) (rule git_merge_missing)
  have "list_all (\<lambda>entry. Q (fst entry) (snd entry)) tool_catalogue"
    unfolding tool_catalogue_def
    by (simp only: list.pred_inject fst_conv snd_conv q1 q2 q3 q4 q5 q6 q7 q8 q9 q10 q11 simp_thms)
  then have all: "\<forall>entry \<in> set tool_catalogue. Q (fst entry) (snd entry)"
    by (simp only: list_all_iff)
  have "Q (fst (name, required)) (snd (name, required))"
    using all assms(1) by (rule bspec)
  then have "Q name required" by (simp only: fst_conv snd_conv)
  with assms(2) show ?thesis unfolding Q_def by blast
qed

text \<open>
  Claim C5, as the code has it. No layer validates a call against its schema; a handler
  fails where it first reads what is not there. For every tool of the catalogue and
  every call that lacks one of its required arguments, the dispatcher returns one
  \<^verbatim>\<open>Error: \<close> payload and the trace of external calls is what it was: no process is
  launched and no request is sent. When the required arguments that are present are
  strings, as the schema has them, the payload is \<^verbatim>\<open>Error: \<close> followed by the quoted
  name of the first required argument that is missing.
\<close>

theorem missing_argument_fails_first:
  assumes "(name, required) \<in> set tool_catalogue"
    and "filter (\<lambda>k. map_of arguments k = None) required = g # others"
  shows "snd (call_tool self ev name arguments w) = w
         \<and> (\<exists>msg. fst (call_tool self ev name arguments w) = [TextContent (''Error: '' @ msg)])
         \<and> (typed arguments required \<longrightarrow>
              fst (call_tool self ev name arguments w) = [TextContent (''Error: '' @ repr_str g)])"
proof -
  from missing_argument_route [OF assms] obtain e where
    r: "route self ev name arguments w = (Inl e, w)"
    and t: "typed arguments required \<longrightarrow> e = KeyError g"
    by blast
  from r have c: "call_tool self ev name arguments w = ([TextContent (''Error: '' @ str_error e)], w)"
    by (simp add: call_tool_def)
  from c t show ?thesis by auto
qed

text \<open>A compilation without its model path, and a safety check without its standard, on
  a machine whose every command would succeed.\<close>

theorem missing_argument_fails_first_witness:
  "call_tool offline_server (fixed_env (Exited 0 [] []) (Inr []) (Inr PNone))
     ''arclang_compile'' [(''validate'', PBool True)] fresh =
     ([TextContent (''Error: '' @ repr_str ''model_path'')], fresh)
   \<and> call_tool offline_server (fixed_env (Exited 0 [] []) (Inr []) (Inr PNone))
     ''arclang_safety_check'' [(''model_path'', PStr ''m.arc'')] fresh =
     ([TextContent (''Error: '' @ repr_str ''standard'')], fresh)
   \<and> repr_str ''model_path'' = [CHR 0x27] @ ''model_path'' @ [CHR 0x27]"
proof -
  have c1: "(''arclang_compile'', [''model_path'']) \<in> set tool_catalogue"
    by (simp add: tool_catalogue_def)
  have f1: "filter (\<lambda>k. map_of [(''validate'', PBool True)] k = None) [''model_path'']
              = ''model_path'' # []"
    by simp
  have t1: "typed [(''validate'', PBool True)] [''model_path'']"
    by (simp add: typed_def)
  have c2: "(''arclang_safety_check'', [''model_path'', ''standard'']) \<in> set tool_catalogue"
    by (simp add: tool_catalogue_def)
  have f2: "filter (\<lambda>k. map_of [(''model_path'', PStr ''m.arc'')] k = None)
              [''model_path'', ''standard''] = ''standard'' # []"
    by simp
  have t2: "typed [(''model_path'', PStr ''m.arc'')] [''model_path'', ''standard'']"
    by (simp add: typed_def)
  have r: "repr_str ''model_path'' = [CHR 0x27] @ ''model_path'' @ [CHR 0x27]"
    by code_simp
  from missing_argument_fails_first [OF c1 f1, of offline_server
         "fixed_env (Exited 0 [] []) (Inr []) (Inr PNone)" fresh] t1
  have a: "call_tool offline_server (fixed_env (Exited 0 [] []) (Inr []) (Inr PNone))
     ''arclang_compile'' [(''validate'', PBool True)] fresh =
     ([TextContent (''Error: '' @ repr_str ''model_path'')], fresh)"
    by (metis prod.collapse)
  from missing_argument_fails_first [OF c2 f2, of offline_server
         "fixed_env (Exited 0 [] []) (Inr []) (Inr PNone)" fresh] t2
  have b: "call_tool offline_server (fixed_env (Exited 0 [] []) (Inr []) (Inr PNone))
     ''arclang_safety_check'' [(''model_path'', PStr ''m.arc'')] fresh =
     ([TextContent (''Error: '' @ repr_str ''standard'')], fresh)"
    by (metis prod.collapse)
  from a b r show ?thesis by blast
qed

text \<open>Claim C5 as stated has the error name the missing field for every call that lacks a
  required argument. A safety check whose model path is the number 5 and whose standard
  is missing fails in \<^verbatim>\<open>Path(args["model_path"])\<close>, before \<^verbatim>\<open>args["standard"]\<close> is read: the
  payload is the type error of the path and names no field. Nothing is called.\<close>

theorem missing_argument_counterexample:
  "(''arclang_safety_check'', [''model_path'', ''standard'']) \<in> set tool_catalogue
   \<and> map_of [(''model_path'', PInt 5)] ''standard'' = None
   \<and> call_tool offline_server (fixed_env (Exited 0 [] []) (Inr []) (Inr PNone))
         ''arclang_safety_check'' [(''model_path'', PInt 5)] fresh =
       ([TextContent ''Error: expected str, bytes or os.PathLike object, not int''], fresh)
   \<and> \<not> contains ''standard'' ''Error: expected str, bytes or os.PathLike object, not int''
   \<and> \<not> typed [(''model_path'', PInt 5)] [''model_path'', ''standard'']"
  by code_simp

end
